theory Spec2Isabelle
  imports Complex_Main "HOL-Library.AList"
begin

section \<open>Python values used by covimerage\<close>

text \<open>
  A Python \<open>str\<close> is a \<^typ>\<open>string\<close>; its characters are read as code points below 256.
  Line numbers and counts are Python integers, hence \<^typ>\<open>int\<close>. A \<open>dict\<close> is an
  association list in insertion order, read with \<^const>\<open>map_of\<close> and written with
  \<^const>\<open>AList.update\<close> (which replaces the value of a key in place and puts a new key
  last, as a Python dict does). A \<open>set\<close> of line numbers is a list without duplicates.
  Every exception that the source can raise is a value of \<open>pyerr\<close>, returned as \<open>Inl\<close>.
\<close>

datatype pyerr = KeyError | ValueError | StopIteration | AttributeError | AssertionError

text \<open>
  The builtins whose result depends on the interpreter or on the process environment are
  parameters of the model: \<open>float(s)\<close> (\<open>None\<close> stands for the \<open>ValueError\<close>), addition
  and truth value of floats, what \<open>os.path.expanduser\<close> makes of a path that starts
  with a tilde, and the order in which a \<open>for\<close> loop goes through a \<open>set\<close> of two or more
  integers (the order of the slots of its hash table; the argument of \<open>set_order\<close> lists
  the elements in the order in which they were added). The type \<open>'f\<close> is the type of
  Python floats.
\<close>

record 'f builtins =
  float_of_str :: "string \<Rightarrow> 'f option"
  float_add :: "'f \<Rightarrow> 'f \<Rightarrow> 'f"
  float_truthy :: "'f \<Rightarrow> bool"
  expand_tilde :: "string \<Rightarrow> string"
  set_order :: "int list \<Rightarrow> int list"

definition py_isspace :: "char \<Rightarrow> bool" where
  \<comment> \<open>\<open>str.isspace\<close>, which is also what \<open>\s\<close> matches in a pattern\<close>
  "py_isspace c = (c \<in> set [CHR 0x09, CHR 0x0A, CHR 0x0B, CHR 0x0C, CHR 0x0D, CHR 0x1C,
     CHR 0x1D, CHR 0x1E, CHR 0x1F, CHR 0x20, CHR 0x85, CHR 0xA0])"

definition is_decimal :: "char \<Rightarrow> bool" where
  "is_decimal c = (48 \<le> (of_char c :: nat) \<and> (of_char c :: nat) \<le> 57)"

definition py_isdigit :: "string \<Rightarrow> bool" where
  \<comment> \<open>\<open>str.isdigit()\<close>: not empty, and every character is a digit (the superscript digits
      of Latin-1 count as digits for \<open>isdigit\<close>).\<close>
  "py_isdigit s = (s \<noteq> [] \<and> list_all (\<lambda>c. is_decimal c \<or> c \<in> set [CHR 0xB2, CHR 0xB3, CHR 0xB9]) s)"

definition int_isspace :: "char \<Rightarrow> bool" where
  \<comment> \<open>The whitespace that \<open>int()\<close> skips around a number: the six ASCII characters of
      C's \<open>isspace\<close>, and the whitespace beyond ASCII. The separators 0x1C to 0x1F are
      not among them.\<close>
  "int_isspace c = (c \<in> set [CHR 0x09, CHR 0x0A, CHR 0x0B, CHR 0x0C, CHR 0x0D, CHR 0x20,
     CHR 0x85, CHR 0xA0])"

definition int_strip :: "string \<Rightarrow> string" where
  "int_strip s = rev (dropWhile int_isspace (rev (dropWhile int_isspace s)))"

definition iter_set :: "'f builtins \<Rightarrow> int list \<Rightarrow> int list" where
  \<comment> \<open>The order in which a \<open>for\<close> loop goes through a set.\<close>
  "iter_set E xs = (if length xs \<le> 1 then xs else set_order E xs)"

definition startswith :: "string \<Rightarrow> string \<Rightarrow> bool" where
  "startswith s p = (take (length p) s = p)"

definition expanduser :: "'f builtins \<Rightarrow> string \<Rightarrow> string" where
  \<comment> \<open>\<open>os.path.expanduser\<close> returns a path that does not start with \<open>~\<close> as it is.\<close>
  "expanduser E p = (if startswith p ''~'' then expand_tilde E p else p)"

definition truthy :: "int option \<Rightarrow> bool" where
  \<comment> \<open>The truth value of a count: \<open>None\<close> and \<open>0\<close> are false.\<close>
  "truthy c = (case c of None \<Rightarrow> False | Some n \<Rightarrow> n \<noteq> 0)"

fun digits_ok :: "string \<Rightarrow> bool" where
  "digits_ok [] = False"
| "digits_ok [c] = is_decimal c"
| "digits_ok (c # d # cs) =
     (is_decimal c \<and> (if d = CHR ''_'' then digits_ok cs else digits_ok (d # cs)))"

definition dec_value :: "string \<Rightarrow> nat" where
  "dec_value ds = foldl (\<lambda>a c. 10 * a + (of_char c - 48)) 0 (filter is_decimal ds)"

definition py_int :: "string \<Rightarrow> int option" where
  \<comment> \<open>\<open>int(s)\<close> in base 10: surrounding whitespace, an optional sign, then digits that
      single underscores may separate, at most 4300 digits (the default limit of the
      interpreter). \<open>None\<close> stands for the \<open>ValueError\<close>.\<close>
  "py_int s =
     (let b = int_strip s;
          neg = (b \<noteq> [] \<and> hd b = CHR ''-'');
          ds = (if b \<noteq> [] \<and> (hd b = CHR ''-'' \<or> hd b = CHR ''+'') then tl b else b)
      in if digits_ok ds \<and> length (filter is_decimal ds) \<le> 4300
         then Some (if neg then - int (dec_value ds) else int (dec_value ds))
         else None)"

section \<open>Lines, scripts and functions\<close>

record 'f Line =
  line :: string
  count :: "int option"
  total_time :: "'f option"
  self_time :: "'f option"

text \<open>
  \<open>Script\<close> is polymorphic in what its line table holds: \<open>'f Line\<close> values while a profile
  is parsed and mapped (no \<open>Line\<close> object is shared there), addresses of \<open>Line\<close> objects
  in a store when profiles are merged.
\<close>

record 'l Script =
  path :: string
  lines :: "(int \<times> 'l) list"
  dict_functions :: "int list"
  mapped_dict_functions :: "int list"
  func_to_lnums :: "(string \<times> int list) list"
  sourced_count :: "int option"

section \<open>CountFieldDecoder\<close>

definition parse_count_and_times ::
  "'f builtins \<Rightarrow> string \<Rightarrow> pyerr + (int option \<times> 'f option \<times> 'f option)" where
  "parse_count_and_times E l =
     (if take 5 l = [] then Inr (Some 0, None, None)
      else
        case (if take 5 l = ''     '' then Inr None
              else case py_int (take 5 l) of None \<Rightarrow> Inl ValueError | Some n \<Rightarrow> Inr (Some n)) of
          Inl e \<Rightarrow> Inl e
        | Inr cnt \<Rightarrow>
           (case (if take 8 (drop 8 l) = ''        '' then Inr None
                  else case float_of_str E (take 8 (drop 8 l)) of
                         None \<Rightarrow> Inl ValueError | Some t \<Rightarrow> Inr (Some t)) of
              Inl e \<Rightarrow> Inl e
            | Inr tot \<Rightarrow>
               (case (if take 8 (drop 19 l) = ''        '' then Inr None
                      else case float_of_str E (take 8 (drop 19 l)) of
                             None \<Rightarrow> Inl ValueError | Some t \<Rightarrow> Inr (Some t)) of
                  Inl e \<Rightarrow> Inl e
                | Inr slf \<Rightarrow> Inr (cnt, tot, slf))))"

section \<open>LineClassifier\<close>

definition re_continuing_line :: "string \<Rightarrow> string option" where
  \<comment> \<open>\<open>RE_CONTINUING_LINE.match(s)\<close>: \<open>Some (s[m.end():])\<close> on a match.\<close>
  "re_continuing_line s =
     (case dropWhile py_isspace s of
        [] \<Rightarrow> None
      | c # r \<Rightarrow> if c = CHR 0x5C then Some r else None)"

fun strip_opt_prefix :: "string \<Rightarrow> string \<Rightarrow> string" where
  "strip_opt_prefix [] s = s"
| "strip_opt_prefix (p # ps) [] = []"
| "strip_opt_prefix (p # ps) (c # cs) = (if c = p then strip_opt_prefix ps cs else c # cs)"

definition re_func_prefix :: "string \<Rightarrow> string option" where
  \<comment> \<open>\<open>re.match(RE_FUNC_PREFIX, s)\<close>: \<open>Some (s[m.end():])\<close> on a match. The nested
      optional groups match the longest prefix of \<open>nction\<close> after \<open>fu\<close>.\<close>
  "re_func_prefix s =
     (let r = dropWhile py_isspace s in
      if startswith r ''fu'' then
        let r1 = strip_opt_prefix ''nction'' (drop 2 r);
            r2 = (case r1 of [] \<Rightarrow> r1 | c # cs \<Rightarrow> if c = CHR ''!'' then cs else r1)
        in (case r2 of
              [] \<Rightarrow> None
            | c # cs \<Rightarrow> if py_isspace c then Some (dropWhile py_isspace r2) else None)
      else None)"

definition re_snr_prefix :: "string \<Rightarrow> string option" where
  \<comment> \<open>\<open>RE_SNR_PREFIX.match(s)\<close>: \<open>Some (s[m.end():])\<close> on a match.\<close>
  "re_snr_prefix s =
     (if startswith s ''<SNR>'' then
        let r = drop 5 s; r1 = dropWhile is_decimal r
        in if takeWhile is_decimal r \<noteq> [] \<and> startswith r1 ''_'' then Some (drop 1 r1) else None
      else None)"

definition re_sourced_times :: "string \<Rightarrow> string option" where
  \<comment> \<open>\<open>RE_SOURCED_TIMES.match(s)\<close>: \<open>Some (m.group(1))\<close> on a match.\<close>
  "re_sourced_times s =
     (if startswith s ''Sourced '' then
        let r = drop 8 s; ds = takeWhile is_decimal r
        in if ds \<noteq> [] \<and> startswith (dropWhile is_decimal r) '' time'' then Some ds else None
      else None)"

text \<open>
  Modelled from the spec: \<open>is_executable_line\<close> lives in \<open>covimerage/utils.py\<close>, which is
  not among the sources. The specification (4.1) says: true iff, after removing leading
  whitespace, the line is neither empty, nor a comment (first non-blank character \<open>"\<close>),
  nor a line continuation (first non-blank character a backslash).
\<close>

definition is_executable_line :: "string \<Rightarrow> bool" where
  "is_executable_line s =
     (case dropWhile py_isspace s of
        [] \<Rightarrow> False
      | c # r \<Rightarrow> c \<noteq> CHR 0x22 \<and> c \<noteq> CHR 0x5C)"

definition set_add :: "int \<Rightarrow> int list \<Rightarrow> int list" where
  "set_add x xs = (if x \<in> set xs then xs else xs @ [x])"

definition parse_function :: "'l Script \<Rightarrow> int \<Rightarrow> string \<Rightarrow> 'l Script" where
  "parse_function s lnum row =
     (case re_func_prefix row of
        None \<Rightarrow> s
      | Some rest \<Rightarrow>
          let f = takeWhile (\<lambda>c. c \<noteq> CHR ''('') rest;
              s1 = (if CHR ''.'' \<in> set f
                    then s\<lparr>dict_functions := set_add lnum (dict_functions s)\<rparr> else s);
              f1 = (if startswith f ''<SID>'' then ''s:'' @ drop 5 f
                    else if startswith f ''g:'' then drop 2 f else f)
          in s1\<lparr>func_to_lnums :=
                  AList.update f1
                    (case map_of (func_to_lnums s1) f1 of None \<Rightarrow> [lnum] | Some ls \<Rightarrow> ls @ [lnum])
                    (func_to_lnums s1)\<rparr>)"

section \<open>ProfileParser\<close>

text \<open>
  A \<open>Function\<close>'s declared source is a reference to a \<open>Script\<close> object of the profile and
  a line number; the reference is the position of the script in \<open>Profile.scripts\<close>.
\<close>

record 'f Function =
  name :: string
  f_total_time :: "'f option"
  f_self_time :: "'f option"
  f_lines :: "(int \<times> 'f Line) list"
  source :: "(nat \<times> int) option"

datatype logmsg =
    Debug_ParsingScript string
  | Debug_ParsingFunction string
  | Warning_CouldNotParse int string
  | Warning_NoScriptLine string int int
  | Warning_NoMatch string string
  | Warning_MultipleAnon string
  | Debug_AlreadyMapped string int
  | Warning_MultipleSources string
  | Error_NoSource string

text \<open>
  The state of a \<open>Profile\<close> object, with the messages it has sent to the logger. The
  entries of \<open>scripts_by_fname\<close> and \<open>anonymous_functions\<close> refer to scripts by position.
\<close>

record 'f Profile =
  scripts :: "'f Line Script list"
  scripts_by_fname :: "(string \<times> nat) list"
  anonymous_functions :: "(string \<times> (nat \<times> int)) list"
  log :: "logmsg list"

text \<open>The local variables of \<open>Profile._parse\<close>, with the profile they work on.\<close>

record 'f pstate =
  prof :: "'f Profile"
  in_script :: "nat option"
  in_function :: "'f Function option"
  st_lnum :: int
  st_plnum :: int
  funcs :: "'f Function list"

definition rstrip_crlf :: "string \<Rightarrow> string" where
  "rstrip_crlf l = rev (dropWhile (\<lambda>c. c = CHR 0x0D \<or> c = CHR 0x0A) (rev l))"

fun partition_first :: "string \<Rightarrow> string \<Rightarrow> (string \<times> string) option" where
  "partition_first sep [] = None"
| "partition_first sep (c # cs) =
     (if startswith (c # cs) sep then Some ([], drop (length sep) (c # cs))
      else map_option (\<lambda>(a, b). (c # a, b)) (partition_first sep cs))"

definition rpartition :: "string \<Rightarrow> string \<Rightarrow> string \<times> string" where
  \<comment> \<open>\<open>s.rpartition(sep)\<close> without its middle component: the text before and after the
      last occurrence of \<open>sep\<close>, or \<open>('', s)\<close>.\<close>
  "rpartition s sep =
     (case partition_first (rev sep) (rev s) of
        None \<Rightarrow> ([], s)
      | Some (a, b) \<Rightarrow> (rev b, rev a))"

fun skip_to_count_header :: "string list \<Rightarrow> pyerr + (int \<times> string list)" where
  "skip_to_count_header [] = Inl StopIteration"
| "skip_to_count_header (l # ls) =
     (if startswith l ''count'' then Inr (1, ls)
      else case skip_to_count_header ls of
             Inl e \<Rightarrow> Inl e
           | Inr (k, r) \<Rightarrow> Inr (k + 1, r))"

definition script_header ::
  "string \<Rightarrow> string list \<Rightarrow> 'f pstate \<Rightarrow> pyerr + (string list \<times> 'f pstate)" where
  "script_header row rest st =
     (let fname = drop 8 row;
          p = prof st;
          i = length (scripts p);
          p1 = p\<lparr>scripts := scripts p @
                  [\<lparr>path = fname, lines = [], dict_functions = [], mapped_dict_functions = [],
                    func_to_lnums = [], sourced_count = None\<rparr>],
                scripts_by_fname := AList.update fname i (scripts_by_fname p),
                log := log p @ [Debug_ParsingScript fname]\<rparr>
      in case rest of
           [] \<Rightarrow> Inl StopIteration
         | next_line # rest1 \<Rightarrow>
            (case re_sourced_times next_line of
               None \<Rightarrow> Inl AttributeError
             | Some g \<Rightarrow>
                (case py_int g of
                   None \<Rightarrow> Inl ValueError
                 | Some n \<Rightarrow>
                    (case skip_to_count_header rest1 of
                       Inl e \<Rightarrow> Inl e
                     | Inr (k, rest2) \<Rightarrow>
                         Inr (rest2,
                              st\<lparr>prof := p1\<lparr>scripts :=
                                    (scripts p1)[i := (scripts p1 ! i)\<lparr>sourced_count := Some n\<rparr>]\<rparr>,
                                 in_script := Some i,
                                 st_plnum := st_plnum st + (k + 1),
                                 st_lnum := 0\<rparr>)))))"

definition defined_source :: "'f builtins \<Rightarrow> 'f Profile \<Rightarrow> string \<Rightarrow> pyerr + (nat \<times> int)" where
  \<comment> \<open>The value assigned to \<open>in_function.source\<close> for a header line \<open>Defined:\<close>.\<close>
  "defined_source E p next_line =
     (let defined = drop 13 next_line;
          (fname0, lnum0) = rpartition defined '':'';
          (fname1, lnum1) = (if fname0 = [] then rpartition defined '' line ''
                             else (fname0, lnum0))
      in case map_of (scripts_by_fname p) (expanduser E fname1) of
           None \<Rightarrow> Inl KeyError
         | Some i \<Rightarrow> (case py_int lnum1 of None \<Rightarrow> Inl ValueError | Some n \<Rightarrow> Inr (i, n)))"

fun function_header ::
  "'f builtins \<Rightarrow> 'f Profile \<Rightarrow> string list \<Rightarrow> 'f Function \<Rightarrow> int \<Rightarrow>
   pyerr + (string list \<times> 'f Function \<times> int)" where
  "function_header E p [] f pl = Inl StopIteration"
| "function_header E p (next_line # rest) f pl =
     (if next_line = [] then Inr (rest, f, pl)
      else if startswith next_line ''count'' then Inr (rest, f, pl + 1)
      else if startswith next_line ''    Defined:'' then
        (case defined_source E p next_line of
           Inl e \<Rightarrow> Inl e
         | Inr src \<Rightarrow> function_header E p rest (f\<lparr>source := Some src\<rparr>) (pl + 1))
      else function_header E p rest f (pl + 1))"

definition data_line :: "'f builtins \<Rightarrow> string \<Rightarrow> 'f pstate \<Rightarrow> pyerr + 'f pstate" where
  "data_line E row st0 =
     (let st = st0\<lparr>st_lnum := st_lnum st0 + 1\<rparr>; p = prof st in
      case parse_count_and_times E row of
        Inl exc \<Rightarrow> Inr (st\<lparr>prof := p\<lparr>log := log p @ [Warning_CouldNotParse (st_plnum st) row]\<rparr>\<rparr>)
      | Inr (cnt, tot, slf) \<Rightarrow>
         (let source_line = drop 28 row in
          case in_script st of
            Some i \<Rightarrow>
              (case (if cnt = None \<and> re_continuing_line source_line \<noteq> None
                     then (case map_of (lines (scripts p ! i)) (st_lnum st - 1) of
                             None \<Rightarrow> Inl KeyError
                           | Some prev \<Rightarrow> Inr (count prev))
                     else Inr cnt) of
                 Inl e \<Rightarrow> Inl e
               | Inr cnt1 \<Rightarrow>
                  (let s = scripts p ! i;
                       s1 = s\<lparr>lines := AList.update (st_lnum st)
                                \<lparr>line = source_line, count = cnt1, total_time = tot,
                                  self_time = slf\<rparr> (lines s)\<rparr>;
                       s2 = (if truthy cnt1 \<or> st_lnum st = 1
                             then parse_function s1 (st_lnum st) source_line else s1)
                   in Inr (st\<lparr>prof := p\<lparr>scripts := (scripts p)[i := s2]\<rparr>\<rparr>)))
          | None \<Rightarrow>
              (case in_function st of
                 None \<Rightarrow> Inr st
               | Some f \<Rightarrow>
                  (let cnt1 = (if cnt = None \<and> is_executable_line source_line
                               then Some 0 else cnt)
                   in Inr (st\<lparr>in_function := Some (f\<lparr>f_lines := AList.update (st_lnum st)
                                \<lparr>line = source_line, count = cnt1, total_time = tot,
                                  self_time = slf\<rparr> (f_lines f)\<rparr>)\<rparr>)))))"

lemma skip_to_count_header_length:
  "skip_to_count_header ls = Inr (k, r) \<Longrightarrow> length r < length ls"
  by (induction ls arbitrary: k r) (auto split: if_splits sum.splits)

lemma script_header_length:
  "script_header row rest st = Inr (rest', st') \<Longrightarrow> length rest' < length rest"
  by (auto simp: script_header_def Let_def split: list.splits option.splits sum.splits
           dest: skip_to_count_header_length)

lemma function_header_length:
  "function_header E p rest f pl = Inr (rest', f', pl') \<Longrightarrow> length rest' < length rest"
  by (induction E p rest f pl rule: function_header.induct)
     (auto split: if_splits sum.splits)

function parse_lines :: "'f builtins \<Rightarrow> string list \<Rightarrow> 'f pstate \<Rightarrow> pyerr + 'f pstate" where
  "parse_lines E [] st = Inr st"
| "parse_lines E (l # rest) st0 =
     (let st = st0\<lparr>st_plnum := st_plnum st0 + 1\<rparr>; row = rstrip_crlf l in
      if row = [] then
        parse_lines E rest
          (st\<lparr>funcs := (case in_function st of
                               None \<Rightarrow> funcs st
                             | Some f \<Rightarrow> funcs st @ [f]),
              in_script := None, in_function := None\<rparr>)
      else if in_script st \<noteq> None \<or> in_function st \<noteq> None then
        (case data_line E row st of
           Inl e \<Rightarrow> Inl e
         | Inr st1 \<Rightarrow> parse_lines E rest st1)
      else if startswith row ''SCRIPT  '' then
        (case script_header row rest st of
           Inl e \<Rightarrow> Inl e
         | Inr (rest1, st1) \<Rightarrow> parse_lines E rest1 st1)
      else if startswith row ''FUNCTION  '' then
        (let func_name = take (length row - 12) (drop 10 row);
             p = prof st;
             p1 = p\<lparr>log := log p @ [Debug_ParsingFunction func_name]\<rparr>
         in case function_header E p1 rest
                   \<lparr>name = func_name, f_total_time = None, f_self_time = None, f_lines = [],
                     source = None\<rparr> (st_plnum st) of
              Inl e \<Rightarrow> Inl e
            | Inr (rest1, f, pl) \<Rightarrow>
                parse_lines E rest1
                  (st\<lparr>prof := p1, in_function := Some f, st_plnum := pl, st_lnum := 0\<rparr>))
      else parse_lines E rest st)"
  by pat_completeness auto
termination
  by (relation "measure (\<lambda>(E, ls, st). length ls)")
     (auto dest: script_header_length function_header_length)

section \<open>FunctionMapper\<close>

lemma filter_ge_shorter:
  "map_of ls (n::int) = Some v \<Longrightarrow>
   length (filter (\<lambda>p. n + 1 \<le> fst p) ls) < length (filter (\<lambda>p. n \<le> fst p) ls)"
proof (induction ls)
  case Nil
  then show ?case by simp
next
  case (Cons a ls)
  have le: "length (filter (\<lambda>p. n + 1 \<le> fst p) ls) \<le> length (filter (\<lambda>p. n \<le> fst p) ls)"
    by (induction ls) auto
  show ?case
  proof (cases "fst a = n")
    case True
    with le show ?thesis by simp
  next
    case False
    with Cons have "length (filter (\<lambda>p. n + 1 \<le> fst p) ls) < length (filter (\<lambda>p. n \<le> fst p) ls)"
      by (cases a) (auto split: if_splits)
    then show ?thesis by auto
  qed
qed

text \<open>
  The \<open>while True\<close> loop of \<open>source_contains_func\<close>, which reads the script line after
  the current one without a guard: a missing line is a \<open>KeyError\<close>. It returns the joined
  text and the moved \<open>script_lnum\<close>; the caller compares the text.
\<close>

function peek_loop_strict ::
  "(int \<times> 'f Line) list \<Rightarrow> string \<Rightarrow> int \<Rightarrow> int \<Rightarrow> pyerr + (string \<times> int)" where
  "peek_loop_strict ls script_source script_lnum f_lnum =
     (case map_of ls (script_lnum + f_lnum + 1) of
        None \<Rightarrow> Inl KeyError
      | Some peek \<Rightarrow>
         (case re_continuing_line (line peek) of
            Some r \<Rightarrow> peek_loop_strict ls (script_source @ r) (script_lnum + 1) f_lnum
          | None \<Rightarrow> Inr (script_source, script_lnum)))"
  by pat_completeness auto
termination
proof (relation "measure (\<lambda>(ls, src, sl, fl). length (filter (\<lambda>p. sl + fl + 1 \<le> fst p) ls))")
  show "wf (measure (\<lambda>(ls :: (int \<times> 'f Line) list, src :: string, sl, fl).
          length (filter (\<lambda>p. sl + fl + 1 \<le> fst p) ls)))"
    by simp
next
  fix ls :: "(int \<times> 'f Line) list" and script_source :: string and script_lnum f_lnum :: int
    and x2 :: "'f Line" and x2a :: string
  assume "map_of ls (script_lnum + f_lnum + 1) = Some x2"
  then have "length (filter (\<lambda>p. script_lnum + f_lnum + 1 + 1 \<le> fst p) ls)
             < length (filter (\<lambda>p. script_lnum + f_lnum + 1 \<le> fst p) ls)"
    by (rule filter_ge_shorter)
  moreover have "script_lnum + 1 + f_lnum + 1 = script_lnum + f_lnum + 1 + 1"
    by simp
  ultimately
  show "((ls, script_source @ x2a, script_lnum + 1, f_lnum), (ls, script_source, script_lnum, f_lnum))
        \<in> measure (\<lambda>(ls, src, sl, fl). length (filter (\<lambda>p. sl + fl + 1 \<le> fst p) ls))"
    unfolding in_measure prod.case by (simp only:)
qed

text \<open>The same loop in \<open>map_function\<close>, where the \<open>KeyError\<close> is caught and passed over.\<close>

function peek_loop ::
  "(int \<times> 'f Line) list \<Rightarrow> string \<Rightarrow> int \<Rightarrow> int \<Rightarrow> string \<times> int" where
  "peek_loop ls script_source script_lnum f_lnum =
     (case map_of ls (script_lnum + f_lnum + 1) of
        None \<Rightarrow> (script_source, script_lnum)
      | Some peek \<Rightarrow>
         (case re_continuing_line (line peek) of
            Some r \<Rightarrow> peek_loop ls (script_source @ r) (script_lnum + 1) f_lnum
          | None \<Rightarrow> (script_source, script_lnum)))"
  by pat_completeness auto
termination
proof (relation "measure (\<lambda>(ls, src, sl, fl). length (filter (\<lambda>p. sl + fl + 1 \<le> fst p) ls))")
  show "wf (measure (\<lambda>(ls :: (int \<times> 'f Line) list, src :: string, sl, fl).
          length (filter (\<lambda>p. sl + fl + 1 \<le> fst p) ls)))"
    by simp
next
  fix ls :: "(int \<times> 'f Line) list" and script_source :: string and script_lnum f_lnum :: int
    and x2 :: "'f Line" and x2a :: string
  assume "map_of ls (script_lnum + f_lnum + 1) = Some x2"
  then have "length (filter (\<lambda>p. script_lnum + f_lnum + 1 + 1 \<le> fst p) ls)
             < length (filter (\<lambda>p. script_lnum + f_lnum + 1 \<le> fst p) ls)"
    by (rule filter_ge_shorter)
  moreover have "script_lnum + 1 + f_lnum + 1 = script_lnum + f_lnum + 1 + 1"
    by simp
  ultimately
  show "((ls, script_source @ x2a, script_lnum + 1, f_lnum), (ls, script_source, script_lnum, f_lnum))
        \<in> measure (\<lambda>(ls, src, sl, fl). length (filter (\<lambda>p. sl + fl + 1 \<le> fst p) ls))"
    unfolding in_measure prod.case by (simp only:)
qed

declare peek_loop_strict.simps [simp del] peek_loop.simps [simp del]

fun source_contains_func_lines ::
  "(int \<times> 'f Line) list \<Rightarrow> int \<Rightarrow> (int \<times> 'f Line) list \<Rightarrow> pyerr + bool" where
  "source_contains_func_lines ls script_lnum [] = Inr True"
| "source_contains_func_lines ls script_lnum ((f_lnum, f_line) # rest) =
     (case map_of ls (script_lnum + f_lnum) of
        None \<Rightarrow> Inl KeyError
      | Some s_line \<Rightarrow>
          if line s_line \<noteq> line f_line then
            (case peek_loop_strict ls (line s_line) script_lnum f_lnum of
               Inl e \<Rightarrow> Inl e
             | Inr (script_source, script_lnum1) \<Rightarrow>
                 if script_source = line f_line
                 then source_contains_func_lines ls script_lnum1 rest
                 else Inr False)
          else source_contains_func_lines ls script_lnum rest)"

definition source_contains_func :: "'f Line Script \<Rightarrow> int \<Rightarrow> 'f Function \<Rightarrow> pyerr + bool" where
  "source_contains_func script script_lnum func =
     source_contains_func_lines (lines script) script_lnum (f_lines func)"

text \<open>The loops of \<open>find_func_in_source\<close> for a named function.\<close>

fun named_candidates ::
  "'f Line Script \<Rightarrow> nat \<Rightarrow> 'f Function \<Rightarrow> int list \<Rightarrow> pyerr + (nat \<times> int) list" where
  "named_candidates s i f [] = Inr []"
| "named_candidates s i f (n # ns) =
     (case source_contains_func s n f of
        Inl e \<Rightarrow> Inl e
      | Inr ok \<Rightarrow>
         (case named_candidates s i f ns of
            Inl e \<Rightarrow> Inl e
          | Inr r \<Rightarrow> Inr (if ok then (i, n) # r else r)))"

fun find_named ::
  "(nat \<times> 'f Line Script) list \<Rightarrow> string \<Rightarrow> 'f Function \<Rightarrow> pyerr + (nat \<times> int) list" where
  "find_named [] funcname f = Inr []"
| "find_named ((i, s) # ss) funcname f =
     (case map_of (func_to_lnums s) funcname of
        None \<Rightarrow> find_named ss funcname f
      | Some lnums \<Rightarrow>
         (case named_candidates s i f lnums of
            Inl e \<Rightarrow> Inl e
          | Inr r \<Rightarrow>
             (case find_named ss funcname f of
                Inl e \<Rightarrow> Inl e
              | Inr r2 \<Rightarrow> Inr (r @ r2))))"

text \<open>The \<open>while\<close> loop of \<open>_get_anon_func_script_line\<close> for one dict-function site.\<close>

function anon_loop ::
  "(int \<times> 'f Line) list \<Rightarrow> (int \<times> 'f Line) list \<Rightarrow> int \<Rightarrow> int \<Rightarrow> int \<Rightarrow> int \<Rightarrow> string \<Rightarrow>
   pyerr + bool" where
  "anon_loop ls fl len_script_lines len_func_lines script_lnum func_lnum script_line =
     (if script_lnum \<le> len_script_lines \<and> func_lnum < len_func_lines then
        (case map_of ls (script_lnum + 1) of
           None \<Rightarrow> Inl KeyError
         | Some next_line \<Rightarrow>
            (case re_continuing_line (line next_line) of
               Some r \<Rightarrow>
                 anon_loop ls fl len_script_lines len_func_lines (script_lnum + 1) func_lnum
                   (script_line @ r)
             | None \<Rightarrow>
                (case map_of fl (func_lnum + 1) of
                   None \<Rightarrow> Inl KeyError
                 | Some f_line \<Rightarrow>
                     if script_line \<noteq> line f_line then Inr False
                     else anon_loop ls fl len_script_lines len_func_lines (script_lnum + 1)
                            (func_lnum + 1) (line next_line))))
      else Inr True)"
  by pat_completeness auto
termination
  by (relation "measure (\<lambda>(ls, fl, n, m, sl, fn, src). nat (n + 1 - sl))") auto

declare anon_loop.simps [simp del]

definition anon_site :: "'f Line Script \<Rightarrow> 'f Function \<Rightarrow> int \<Rightarrow> pyerr + bool" where
  \<comment> \<open>The body of the loop over \<open>s.dict_functions\<close>: the value of \<open>script_is_func\<close>.\<close>
  "anon_site s func lnum =
     (case map_of (lines s) (lnum + 1) of
        None \<Rightarrow> Inl KeyError
      | Some l \<Rightarrow>
          anon_loop (lines s) (f_lines func) (int (length (lines s)))
            (int (length (f_lines func))) (lnum + 1) 0 (line l))"

fun anon_sites ::
  "'f Line Script \<Rightarrow> nat \<Rightarrow> 'f Function \<Rightarrow> int list \<Rightarrow> pyerr + (nat \<times> int) list" where
  "anon_sites s i func [] = Inr []"
| "anon_sites s i func (n # ns) =
     (case anon_site s func n of
        Inl e \<Rightarrow> Inl e
      | Inr ok \<Rightarrow>
         (case anon_sites s i func ns of
            Inl e \<Rightarrow> Inl e
          | Inr r \<Rightarrow> Inr (if ok then (i, n) # r else r)))"

fun find_anon ::
  "'f builtins \<Rightarrow> (nat \<times> 'f Line Script) list \<Rightarrow> 'f Function \<Rightarrow> pyerr + (nat \<times> int) list" where
  "find_anon E [] func = Inr []"
| "find_anon E ((i, s) # ss) func =
     (case anon_sites s i func (iter_set E (dict_functions s)) of
        Inl e \<Rightarrow> Inl e
      | Inr r \<Rightarrow>
         (case find_anon E ss func of
            Inl e \<Rightarrow> Inl e
          | Inr r2 \<Rightarrow> Inr (r @ r2)))"

text \<open>
  The loop over \<open>found\<close> at the end of \<open>_get_anon_func_script_line\<close>: the first site that
  is not yet in its script's \<open>mapped_dict_functions\<close> is added there and returned.
\<close>

fun take_unmapped ::
  "(nat \<times> int) list \<Rightarrow> 'f Line Script list \<Rightarrow> logmsg list \<Rightarrow>
   (nat \<times> int) option \<times> 'f Line Script list \<times> logmsg list" where
  "take_unmapped [] scs lg = (None, scs, lg)"
| "take_unmapped ((i, lnum) # rest) scs lg =
     (if lnum \<in> set (mapped_dict_functions (scs ! i))
      then take_unmapped rest scs (lg @ [Debug_AlreadyMapped (path (scs ! i)) lnum])
      else (Some (i, lnum),
            scs[i := (scs ! i)\<lparr>mapped_dict_functions :=
                                 set_add lnum (mapped_dict_functions (scs ! i))\<rparr>],
            lg))"

definition enumerate_scripts :: "'f Profile \<Rightarrow> (nat \<times> 'f Line Script) list" where
  "enumerate_scripts p = zip [0..<length (scripts p)] (scripts p)"

definition get_anon_func_script_line_inner ::
  "'f builtins \<Rightarrow> 'f Function \<Rightarrow> 'f Profile \<Rightarrow> pyerr + ((nat \<times> int) option \<times> 'f Profile)" where
  \<comment> \<open>\<open>Profile._get_anon_func_script_line\<close>\<close>
  "get_anon_func_script_line_inner E func p =
     (case find_anon E (enumerate_scripts p) func of
        Inl e \<Rightarrow> Inl e
      | Inr found \<Rightarrow>
          if found \<noteq> [] then
            (let lg = (if length found > 1 then log p @ [Warning_MultipleAnon (name func)]
                       else log p)
             in case take_unmapped found (scripts p) lg of
                  (Some r, scs, lg1) \<Rightarrow> Inr (Some r, p\<lparr>scripts := scs, log := lg1\<rparr>)
                | (None, scs, lg1) \<Rightarrow> Inr (Some (hd found), p\<lparr>scripts := scs, log := lg1\<rparr>))
          else Inr (None, p))"

definition get_anon_func_script_line ::
  "'f builtins \<Rightarrow> 'f Function \<Rightarrow> 'f Profile \<Rightarrow> pyerr + ((nat \<times> int) option \<times> 'f Profile)" where
  "get_anon_func_script_line E func p =
     (case map_of (anonymous_functions p) (name func) of
        Some r \<Rightarrow> Inr (Some r, p)
      | None \<Rightarrow>
         (case get_anon_func_script_line_inner E func p of
            Inl e \<Rightarrow> Inl e
          | Inr (None, p1) \<Rightarrow> Inr (None, p1)
          | Inr (Some r, p1) \<Rightarrow>
              Inr (Some r, p1\<lparr>anonymous_functions :=
                                AList.update (name func) r (anonymous_functions p1)\<rparr>)))"

definition find_func_in_source ::
  "'f builtins \<Rightarrow> 'f Function \<Rightarrow> 'f Profile \<Rightarrow> pyerr + ((nat \<times> int) option \<times> 'f Profile)" where
  "find_func_in_source E func p =
     (if py_isdigit (name func) then get_anon_func_script_line E func p
      else
        let funcname = (case re_snr_prefix (name func) of
                          Some r \<Rightarrow> ''s:'' @ r
                        | None \<Rightarrow> name func)
        in case find_named (enumerate_scripts p) funcname func of
             Inl e \<Rightarrow> Inl e
           | Inr found \<Rightarrow>
               if found \<noteq> [] then
                 Inr (Some (hd found),
                      if length found > 1
                      then p\<lparr>log := log p @ [Warning_MultipleSources (name func)]\<rparr> else p)
               else Inr (None, p))"

text \<open>
  The loop of \<open>map_function\<close> that gives the count of a script line to the continuation
  lines after it. The guard reads \<open>script.lines[i]\<close> outside any \<open>try\<close>.
\<close>

function propagate_count ::
  "(int \<times> 'f Line) list \<Rightarrow> int option \<Rightarrow> int \<Rightarrow> int \<Rightarrow> pyerr + (int \<times> 'f Line) list" where
  "propagate_count ls c i n =
     (if i < n then
        (case map_of ls i of
           None \<Rightarrow> Inl KeyError
         | Some l \<Rightarrow>
             if re_continuing_line (line l) \<noteq> None
             then propagate_count (AList.update i (l\<lparr>count := c\<rparr>) ls) c (i + 1) n
             else Inr ls)
      else Inr ls)"
  by pat_completeness auto
termination
  by (relation "measure (\<lambda>(ls, c, i, n). nat (n - i))") auto

declare propagate_count.simps [simp del]

definition add_count :: "int option \<Rightarrow> int \<Rightarrow> int option" where
  \<comment> \<open>\<open>s_line.count\<close> after \<open>if s_line.count: s_line.count += c else: s_line.count = c\<close>\<close>
  "add_count sc c = (case sc of None \<Rightarrow> Some c | Some a \<Rightarrow> if a \<noteq> 0 then Some (a + c) else Some c)"

definition add_time :: "'f builtins \<Rightarrow> 'f option \<Rightarrow> 'f option \<Rightarrow> 'f option" where
  \<comment> \<open>a time of the script line after the two nested \<open>if\<close>s on the function line's time\<close>
  "add_time E st ft =
     (case ft of
        None \<Rightarrow> st
      | Some b \<Rightarrow>
          if float_truthy E b then
            (case st of
               None \<Rightarrow> Some b
             | Some a \<Rightarrow> if float_truthy E a then Some (float_add E a b) else Some b)
          else st)"

text \<open>
  The body of the \<open>for\<close> loop of \<open>map_function\<close> for one item \<open>(f_lnum, f_line)\<close> of
  \<open>f.lines\<close>. It ends in one of three ways: an exception; \<open>return False\<close> after a
  warning (\<open>Inr (Inl w)\<close>); or the next iteration, with the values that \<open>script_lnum\<close>
  and the script then have. The object \<open>s_line\<close> is the entry of \<open>script.lines\<close> at
  \<open>s_lnum\<close>; the loop over the continuation lines writes to later entries only.
\<close>

definition map_function_line ::
  "'f builtins \<Rightarrow> string \<Rightarrow> int \<Rightarrow> 'f Line \<Rightarrow> int \<Rightarrow> 'f Line Script \<Rightarrow>
   pyerr + (logmsg + (int \<times> 'f Line Script))" where
  "map_function_line E fname f_lnum f_line script_lnum script =
     (let s_lnum = script_lnum + f_lnum in
      case map_of (lines script) s_lnum of
        None \<Rightarrow> Inr (Inl (Warning_NoScriptLine fname script_lnum f_lnum))
      | Some s_line \<Rightarrow>
         (let (script_source, script_lnum1) =
                (if line s_line \<noteq> line f_line
                 then peek_loop (lines script) (line s_line) script_lnum f_lnum
                 else (line s_line, script_lnum))
          in if script_source \<noteq> line f_line
             then Inr (Inl (Warning_NoMatch script_source (line f_line)))
             else
               (case (case count f_line of
                        None \<Rightarrow> Inr (script, s_line)
                      | Some c \<Rightarrow>
                         (let script1 = parse_function script (script_lnum1 + f_lnum) (line f_line);
                              s_line1 = s_line\<lparr>count := add_count (count s_line) c\<rparr>;
                              ls1 = AList.update s_lnum s_line1 (lines script1)
                          in case propagate_count ls1 (count s_line1) (s_lnum + 1)
                                    (int (length ls1)) of
                               Inl e \<Rightarrow> Inl e
                             | Inr ls2 \<Rightarrow> Inr (script1\<lparr>lines := ls2\<rparr>, s_line1))) of
                  Inl e \<Rightarrow> Inl e
                | Inr (script2, s_line2) \<Rightarrow>
                   (let s_line3 = s_line2\<lparr>self_time :=
                                     add_time E (self_time s_line2) (self_time f_line)\<rparr>;
                        s_line4 = s_line3\<lparr>total_time :=
                                     add_time E (total_time s_line3) (total_time f_line)\<rparr>
                    in Inr (Inr (script_lnum1,
                                 script2\<lparr>lines := AList.update s_lnum s_line4 (lines script2)\<rparr>))))))"

text \<open>
  The \<open>for\<close> loop of \<open>map_function\<close> over \<open>f.lines.items()\<close>. The script is changed in
  place, so the result holds the script as it is when the loop stops, also when the
  function returns \<open>False\<close>, with the value of \<open>script_lnum\<close> at that moment.
\<close>

fun map_function_lines ::
  "'f builtins \<Rightarrow> string \<Rightarrow> (int \<times> 'f Line) list \<Rightarrow> int \<Rightarrow> 'f Line Script \<Rightarrow> logmsg list \<Rightarrow>
   pyerr + (bool \<times> int \<times> 'f Line Script \<times> logmsg list)" where
  "map_function_lines E fname [] script_lnum script lg = Inr (True, script_lnum, script, lg)"
| "map_function_lines E fname ((f_lnum, f_line) # rest) script_lnum script lg =
     (case map_function_line E fname f_lnum f_line script_lnum script of
        Inl e \<Rightarrow> Inl e
      | Inr (Inl w) \<Rightarrow> Inr (False, script_lnum, script, lg @ [w])
      | Inr (Inr (script_lnum1, script1)) \<Rightarrow>
          map_function_lines E fname rest script_lnum1 script1 lg)"

definition map_function ::
  "'f builtins \<Rightarrow> 'f Function \<Rightarrow> 'f Profile \<Rightarrow> pyerr + (bool \<times> 'f Profile)" where
  "map_function E f p =
     (case (case source f of
              Some src \<Rightarrow> Inr (Some src, p)
            | None \<Rightarrow> find_func_in_source E f p) of
        Inl e \<Rightarrow> Inl e
      | Inr (None, p1) \<Rightarrow> Inr (False, p1)
      | Inr (Some (i, script_lnum), p1) \<Rightarrow>
         (case map_function_lines E (name f) (f_lines f) script_lnum (scripts p1 ! i) (log p1) of
            Inl e \<Rightarrow> Inl e
          | Inr (ok, script_lnum1, script, lg) \<Rightarrow>
              Inr (ok, p1\<lparr>scripts := (scripts p1)[i := script], log := lg\<rparr>)))"

text \<open>
  \<open>Function\<close> is an \<open>attr.s\<close> class: \<open>==\<close> compares the attributes \<open>name\<close>, \<open>total_time\<close>,
  \<open>self_time\<close> and \<open>lines\<close> (\<open>source\<close> is a plain class attribute and takes no part). Two
  dicts are equal when they hold the same items, in any order.
\<close>

definition dict_eq :: "('k \<times> 'v) list \<Rightarrow> ('k \<times> 'v) list \<Rightarrow> bool" where
  "dict_eq a b = (list_all (\<lambda>kv. kv \<in> set b) a \<and> list_all (\<lambda>kv. kv \<in> set a) b)"

definition function_eq :: "'f Function \<Rightarrow> 'f Function \<Rightarrow> bool" where
  "function_eq f g =
     (name f = name g \<and> f_total_time f = f_total_time g \<and> f_self_time f = f_self_time g \<and>
      dict_eq (f_lines f) (f_lines g))"

fun list_remove :: "'f Function \<Rightarrow> 'f Function list \<Rightarrow> 'f Function list" where
  \<comment> \<open>\<open>functions.remove(f)\<close>: the first element equal to \<open>f\<close> goes\<close>
  "list_remove f [] = []"
| "list_remove f (x # xs) = (if function_eq x f then xs else x # list_remove f xs)"

lemma length_list_remove: "length (list_remove f xs) \<le> length xs"
  by (induction xs) auto

text \<open>
  One pass \<open>for f in functions\<close> of \<open>map_functions\<close>. The list iterator of Python keeps
  an index into the list, and the body removes from the list it iterates over.
\<close>

function map_pass ::
  "'f builtins \<Rightarrow> nat \<Rightarrow> 'f Function list \<Rightarrow> 'f Profile \<Rightarrow> pyerr + ('f Function list \<times> 'f Profile)" where
  "map_pass E i fs p =
     (if i < length fs then
        (case map_function E (fs ! i) p of
           Inl e \<Rightarrow> Inl e
         | Inr (ok, p1) \<Rightarrow> map_pass E (i + 1) (if ok then list_remove (fs ! i) fs else fs) p1)
      else Inr (fs, p))"
  by pat_completeness auto
termination
proof (relation "measure (\<lambda>(E, i, fs, p). length fs - i)")
  show "wf (measure (\<lambda>(E :: 'f builtins, i, fs :: 'f Function list, p :: 'f Profile). length fs - i))"
    by simp
next
  fix E :: "'f builtins" and i :: nat and fs :: "'f Function list" and p :: "'f Profile"
    and x2 :: "bool \<times> 'f Profile" and x1 :: bool and y :: "'f Profile"
  assume "i < length fs"
  moreover have "length (list_remove (fs ! i) fs) \<le> length fs"
    by (rule length_list_remove)
  ultimately show "((E, i + 1, if x1 then list_remove (fs ! i) fs else fs, y), (E, i, fs, p))
      \<in> measure (\<lambda>(E, i, fs, p). length fs - i)"
    by auto
qed

declare map_pass.simps [simp del]

lemma map_pass_length: "map_pass E i fs p = Inr (fs1, p1) \<Longrightarrow> length fs1 \<le> length fs"
proof (induction E i fs p rule: map_pass.induct)
  case (1 E i fs p)
  show ?case
  proof (cases "i < length fs")
    case False
    with "1.prems" show ?thesis by (simp add: map_pass.simps [of E i fs p])
  next
    case True
    with "1.prems" obtain ok p2 where
      mf: "map_function E (fs ! i) p = Inr (ok, p2)" and
      rec: "map_pass E (i + 1) (if ok then list_remove (fs ! i) fs else fs) p2 = Inr (fs1, p1)"
      by (auto simp: map_pass.simps [of E i fs p] split: sum.splits)
    from "1.IH" [OF True mf refl rec]
    have "length fs1 \<le> length (if ok then list_remove (fs ! i) fs else fs)" .
    also have "\<dots> \<le> length fs" by (simp add: length_list_remove)
    finally show ?thesis .
  qed
qed

text \<open>The \<open>while functions\<close> loop of \<open>map_functions\<close>.\<close>

function map_loop ::
  "'f builtins \<Rightarrow> 'f Function list \<Rightarrow> 'f Profile \<Rightarrow> pyerr + ('f Function list \<times> 'f Profile)" where
  "map_loop E fs p =
     (if fs \<noteq> [] then
        (case map_pass E 0 fs p of
           Inl e \<Rightarrow> Inl e
         | Inr (fs1, p1) \<Rightarrow>
             if length fs = length fs1 then Inr (fs1, p1) else map_loop E fs1 p1)
      else Inr (fs, p))"
  by pat_completeness auto
termination
proof (relation "measure (\<lambda>(E, fs, p). length fs)")
  show "wf (measure (\<lambda>(E :: 'f builtins, fs :: 'f Function list, p :: 'f Profile). length fs))"
    by simp
next
  fix E :: "'f builtins" and fs :: "'f Function list" and p :: "'f Profile"
    and x2 :: "'f Function list \<times> 'f Profile" and x1 :: "'f Function list" and y :: "'f Profile"
  assume "map_pass E 0 fs p = Inr x2" and "(x1, y) = x2" and "length fs \<noteq> length x1"
  then show "((E, x1, y), (E, fs, p)) \<in> measure (\<lambda>(E, fs, p). length fs)"
    using map_pass_length [of E 0 fs p x1 y] by auto
qed

declare map_loop.simps [simp del]

definition map_functions ::
  "'f builtins \<Rightarrow> 'f Function list \<Rightarrow> 'f Profile \<Rightarrow> pyerr + ('f Function list \<times> 'f Profile)" where
  \<comment> \<open>The result holds the functions that are left in the list, with the profile.\<close>
  "map_functions E fs p =
     (case map_loop E fs p of
        Inl e \<Rightarrow> Inl e
      | Inr (fs1, p1) \<Rightarrow> Inr (fs1, p1\<lparr>log := log p1 @ map (\<lambda>f. Error_NoSource (name f)) fs1\<rparr>))"

definition new_profile :: "'f Profile" where
  "new_profile = \<lparr>scripts = [], scripts_by_fname = [], anonymous_functions = [], log = []\<rparr>"

definition parse :: "'f builtins \<Rightarrow> string list \<Rightarrow> pyerr + 'f Profile" where
  \<comment> \<open>\<open>Profile.parse\<close> on a new \<open>Profile\<close>; the argument holds the lines that iterating
      over the file object gives.\<close>
  "parse E file_object =
     (case parse_lines E file_object
             \<lparr>prof = new_profile, in_script = None, in_function = None, st_lnum = 0,
               st_plnum = 0, funcs = []\<rparr> of
        Inl e \<Rightarrow> Inl e
      | Inr st \<Rightarrow>
         (case map_functions E (funcs st) (prof st) of
            Inl e \<Rightarrow> Inl e
          | Inr (fs, p) \<Rightarrow> Inr p))"

section \<open>ProfileMerger\<close>

text \<open>
  The merger keeps references to the \<open>Line\<close> objects of the profiles it reads, and it
  assigns to an attribute of a \<open>Line\<close>. So here the \<open>Line\<close> objects live in a store, a
  list of \<open>Line\<close> values; the address of an object is its position, and a new object is
  put at the end. A profile is the list of its scripts, and the line table of a script
  maps line numbers to addresses. A merged profile file enters the store through
  \<open>store_profile\<close>, which gives every \<open>Line\<close> of the parsed profile an address of its own.
\<close>

fun store_lines :: "(int \<times> 'f Line) list \<Rightarrow> 'f Line list \<Rightarrow> (int \<times> nat) list \<times> 'f Line list" where
  "store_lines [] h = ([], h)"
| "store_lines ((k, l) # r) h =
     (case store_lines r (h @ [l]) of (r1, h1) \<Rightarrow> ((k, length h) # r1, h1))"

fun store_profile ::
  "'f Line Script list \<Rightarrow> 'f Line list \<Rightarrow> nat Script list \<times> 'f Line list" where
  "store_profile [] h = ([], h)"
| "store_profile (s # ss) h =
     (case store_lines (lines s) h of
        (ls, h1) \<Rightarrow>
          (case store_profile ss h1 of
             (ss1, h2) \<Rightarrow>
               (\<lparr>path = path s, lines = ls, dict_functions = dict_functions s,
                 mapped_dict_functions = mapped_dict_functions s,
                 func_to_lnums = func_to_lnums s, sourced_count = sourced_count s\<rparr> # ss1,
                h2)))"

text \<open>
  \<open>Script\<close> is an \<open>attr.s\<close> class with \<open>hash=True\<close>: as the key of a dict, two scripts
  with equal attributes are one key. \<open>Profile.lines\<close> is the dict
  \<open>{s: s.lines for s in self.scripts}\<close>: a later script equal to an earlier one keeps the
  earlier key and replaces its value.
\<close>

definition script_eq :: "'f Line list \<Rightarrow> nat Script \<Rightarrow> nat Script \<Rightarrow> bool" where
  "script_eq h a b =
     (path a = path b \<and>
      dict_eq (map (\<lambda>(k, x). (k, h ! x)) (lines a)) (map (\<lambda>(k, x). (k, h ! x)) (lines b)) \<and>
      list_all (\<lambda>x. x \<in> set (dict_functions b)) (dict_functions a) \<and>
      list_all (\<lambda>x. x \<in> set (dict_functions a)) (dict_functions b) \<and>
      list_all (\<lambda>x. x \<in> set (mapped_dict_functions b)) (mapped_dict_functions a) \<and>
      list_all (\<lambda>x. x \<in> set (mapped_dict_functions a)) (mapped_dict_functions b) \<and>
      dict_eq (func_to_lnums a) (func_to_lnums b) \<and>
      sourced_count a = sourced_count b)"

fun set_item ::
  "'f Line list \<Rightarrow> nat Script \<Rightarrow> (int \<times> nat) list \<Rightarrow> (nat Script \<times> (int \<times> nat) list) list \<Rightarrow>
   (nat Script \<times> (int \<times> nat) list) list" where
  "set_item h s v [] = [(s, v)]"
| "set_item h s v ((k, w) # r) = (if script_eq h k s then (k, v) # r else (k, w) # set_item h s v r)"

definition profile_lines ::
  "'f Line list \<Rightarrow> nat Script list \<Rightarrow> (nat Script \<times> (int \<times> nat) list) list" where
  \<comment> \<open>\<open>Profile.lines\<close>\<close>
  "profile_lines h p = foldl (\<lambda>d s. set_item h s (lines s) d) [] p"

definition merge_lines :: "'f Line \<Rightarrow> 'f Line \<Rightarrow> pyerr + 'f Line" where
  "merge_lines line1 line2 =
     (if line line1 \<noteq> line line2 then Inl AssertionError
      else Inr \<lparr>line = line line1,
                count = (case count line1 of
                           None \<Rightarrow> count line2
                         | Some a \<Rightarrow> (case count line2 of None \<Rightarrow> Some a | Some b \<Rightarrow> Some (a + b))),
                total_time = None, self_time = None\<rparr>)"

text \<open>
  The loop \<open>for lnum, line in s_lines.items()\<close> on the table \<open>new\<close> of a path that is
  already in \<open>lines\<close>: both branches make a new \<open>Line\<close> object.
\<close>

fun merge_into ::
  "(int \<times> nat) list \<Rightarrow> (int \<times> nat) list \<Rightarrow> 'f Line list \<Rightarrow>
   pyerr + ((int \<times> nat) list \<times> 'f Line list)" where
  "merge_into [] new h = Inr (new, h)"
| "merge_into ((n, a) # rest) new h =
     (case map_of new n of
        Some b \<Rightarrow>
          (case merge_lines (h ! b) (h ! a) of
             Inl e \<Rightarrow> Inl e
           | Inr l \<Rightarrow> merge_into rest (AList.update n (length h) new) (h @ [l]))
      | None \<Rightarrow> merge_into rest (AList.update n (length h) new) (h @ [h ! a]))"

text \<open>
  The first-line workaround, lines 128 to 133 of the source: \<open>new\<close> is \<open>lines[s.path]\<close>.
  The assignment \<open>line1.count = 1\<close> writes to the object at the address that the merged
  table holds for line 1.
\<close>

definition first_line_workaround ::
  "nat Script \<Rightarrow> (int \<times> nat) list \<Rightarrow> (int \<times> nat) list \<Rightarrow> 'f Line list \<Rightarrow> pyerr + 'f Line list" where
  "first_line_workaround s s_lines new h =
     (if truthy (sourced_count s) \<and> s_lines \<noteq> [] then
        (case map_of new 1 of
           None \<Rightarrow> Inl KeyError
         | Some a \<Rightarrow>
             if \<not> truthy (count (h ! a)) \<and> is_executable_line (line (h ! a))
             then Inr (h[a := (h ! a)\<lparr>count := Some 1\<rparr>])
             else Inr h)
      else Inr h)"

text \<open>
  The body of the loop over \<open>p.lines.items()\<close>. \<open>copy.copy(s_lines)\<close> is a new dict that
  holds the same \<open>Line\<close> objects as \<open>s_lines\<close>.
\<close>

definition merge_script ::
  "nat Script \<Rightarrow> (int \<times> nat) list \<Rightarrow> (string \<times> (int \<times> nat) list) list \<Rightarrow> 'f Line list \<Rightarrow>
   pyerr + ((string \<times> (int \<times> nat) list) list \<times> 'f Line list)" where
  "merge_script s s_lines tbl h =
     (case (case map_of tbl (path s) of
              Some new \<Rightarrow> merge_into s_lines new h
            | None \<Rightarrow> Inr (s_lines, h)) of
        Inl e \<Rightarrow> Inl e
      | Inr (new, h1) \<Rightarrow>
         (case first_line_workaround s s_lines new h1 of
            Inl e \<Rightarrow> Inl e
          | Inr h2 \<Rightarrow> Inr (AList.update (path s) new tbl, h2)))"

fun merge_scripts ::
  "(nat Script \<times> (int \<times> nat) list) list \<Rightarrow> (string \<times> (int \<times> nat) list) list \<Rightarrow> 'f Line list \<Rightarrow>
   pyerr + ((string \<times> (int \<times> nat) list) list \<times> 'f Line list)" where
  "merge_scripts [] tbl h = Inr (tbl, h)"
| "merge_scripts ((s, s_lines) # rest) tbl h =
     (case merge_script s s_lines tbl h of
        Inl e \<Rightarrow> Inl e
      | Inr (tbl1, h1) \<Rightarrow> merge_scripts rest tbl1 h1)"

fun merge_profiles ::
  "nat Script list list \<Rightarrow> (string \<times> (int \<times> nat) list) list \<Rightarrow> 'f Line list \<Rightarrow>
   pyerr + ((string \<times> (int \<times> nat) list) list \<times> 'f Line list)" where
  "merge_profiles [] tbl h = Inr (tbl, h)"
| "merge_profiles (p # ps) tbl h =
     (case merge_scripts (profile_lines h p) tbl h of
        Inl e \<Rightarrow> Inl e
      | Inr (tbl1, h1) \<Rightarrow> merge_profiles ps tbl1 h1)"

definition merged_lines ::
  "nat Script list list \<Rightarrow> 'f Line list \<Rightarrow>
   pyerr + ((string \<times> (int \<times> nat) list) list \<times> 'f Line list)" where
  \<comment> \<open>The property \<open>MergedProfiles.lines\<close>: the table it returns, and the store after it.\<close>
  "merged_lines ps h = merge_profiles ps [] h"

definition merged_count ::
  "(string \<times> (int \<times> nat) list) list \<times> 'f Line list \<Rightarrow> string \<Rightarrow> int \<Rightarrow> int option option" where
  \<comment> \<open>The count that a merged table holds for a line of a path: \<open>None\<close> when the table has
      no such line, \<open>Some c\<close> for a line with \<open>count = c\<close>.\<close>
  "merged_count r fname n =
     (case map_of (fst r) fname of
        None \<Rightarrow> None
      | Some new \<Rightarrow> (case map_of new n of None \<Rightarrow> None | Some a \<Rightarrow> Some (count (snd r ! a))))"

section \<open>MergedProfiles and its cached coverage record\<close>

text \<open>
  The file system is a parameter: \<open>os.path.abspath\<close>, and the list \<open>source_files\<close> that
  lines 145 to 151 of the source compute from \<open>self.source\<close>. The coverage record is what
  \<open>_get_coveragepy_data\<close> hands to the external \<open>CoverageData\<close> object: the dict
  \<open>cov_dict\<close> (the lines with a count that is true, for every file) and the dict
  \<open>cov_file_tracers\<close>.
\<close>

record fs =
  abspath :: "string \<Rightarrow> string"
  find_source_files :: "string list \<Rightarrow> string list"

type_synonym cov = "(string \<times> int list) list \<times> (string \<times> string) list"

record MergedProfiles =
  profiles :: "nat Script list list"
  mp_source :: "string list"
  append_to :: "string option"
  coveragepy_data :: "cov option"

definition setattr_profiles :: "nat Script list list \<Rightarrow> MergedProfiles \<Rightarrow> MergedProfiles" where
  \<comment> \<open>\<open>MergedProfiles.__setattr__\<close> for the name \<open>profiles\<close>\<close>
  "setattr_profiles v mp = (mp\<lparr>coveragepy_data := None\<rparr>)\<lparr>profiles := v\<rparr>"

text \<open>
  \<open>add_profile_files\<close> parses each file (given by the lines that reading it yields) and
  calls \<open>self.profiles.append(p)\<close>, which changes the list object in place: no attribute
  is assigned, and \<open>__setattr__\<close> does not run.
\<close>

fun add_profile_files ::
  "'f builtins \<Rightarrow> string list list \<Rightarrow> MergedProfiles \<Rightarrow> 'f Line list \<Rightarrow>
   pyerr + (MergedProfiles \<times> 'f Line list)" where
  "add_profile_files E [] mp h = Inr (mp, h)"
| "add_profile_files E (f # fl) mp h =
     (case parse E f of
        Inl e \<Rightarrow> Inl e
      | Inr p \<Rightarrow>
         (case store_profile (scripts p) h of
            (sp, h1) \<Rightarrow> add_profile_files E fl (mp\<lparr>profiles := profiles mp @ [sp]\<rparr>) h1))"

fun cov_loop ::
  "fs \<Rightarrow> bool \<Rightarrow> string list \<Rightarrow> 'f Line list \<Rightarrow> (string \<times> (int \<times> nat) list) list \<Rightarrow> cov \<Rightarrow> cov" where
  "cov_loop F src source_files h [] c = c"
| "cov_loop F src source_files h ((fname, ls) # r) c =
     (if src \<and> abspath F fname \<notin> set source_files then cov_loop F src source_files h r c
      else cov_loop F src source_files h r
             (AList.update (abspath F fname)
                (map fst (filter (\<lambda>(n, a). truthy (count (h ! a))) ls)) (fst c),
              AList.update (abspath F fname) ''covimerage.CoveragePlugin'' (snd c)))"

definition get_coveragepy_data_inner ::
  "fs \<Rightarrow> MergedProfiles \<Rightarrow> 'f Line list \<Rightarrow> pyerr + (cov \<times> 'f Line list)" where
  \<comment> \<open>\<open>MergedProfiles._get_coveragepy_data\<close>\<close>
  "get_coveragepy_data_inner F mp h =
     (let source_files = find_source_files F (mp_source mp) in
      case merged_lines (profiles mp) h of
        Inl e \<Rightarrow> Inl e
      | Inr (tbl, h1) \<Rightarrow>
         (let c = cov_loop F (mp_source mp \<noteq> []) source_files h1 tbl ([], []);
              non_measured_files = filter (\<lambda>f. f \<notin> set (map fst (fst c))) (remdups source_files)
          in Inr ((fst c @ map (\<lambda>f. (f, [])) non_measured_files,
                   snd c @ map (\<lambda>f. (f, ''covimerage.CoveragePlugin'')) non_measured_files),
                  h1)))"

definition get_coveragepy_data ::
  "fs \<Rightarrow> MergedProfiles \<Rightarrow> 'f Line list \<Rightarrow> pyerr + (cov \<times> MergedProfiles \<times> 'f Line list)" where
  "get_coveragepy_data F mp h =
     (case coveragepy_data mp of
        Some d \<Rightarrow> Inr (d, mp, h)
      | None \<Rightarrow>
         (case get_coveragepy_data_inner F mp h of
            Inl e \<Rightarrow> Inl e
          | Inr (d, h1) \<Rightarrow> Inr (d, mp\<lparr>coveragepy_data := Some d\<rparr>, h1)))"

definition data_row :: "string \<Rightarrow> string \<Rightarrow> string" where
  \<comment> \<open>A data line of a profile with empty time columns: the count in columns 0 to 4, the
      source text from column 28 on.\<close>
  "data_row cnt src = cnt @ ''                       '' @ src"

section \<open>Notions used in the statements\<close>









text \<open>
  The notions of the proofs about the merger. \<open>comb\<close> is how \<open>merge_lines\<close> combines two
  counts, and \<open>comb2\<close> extends it to a line that a table may not have. \<open>addr_at\<close> is the
  address that a merged table holds for a line of a path, \<open>contrib\<close> the count that a line
  table of a script brings for a line number, \<open>contribs\<close> the counts that the items of
  \<open>Profile.lines\<close> bring for a line of a path. \<open>profile_entries\<close> lists the entries of the
  line tables of a profile; two profiles are \<open>separate\<close> in a store when every entry holds
  an address of the store, no two entries hold the same address, and no line table has a
  key twice: this is how \<open>store_profile\<close> puts parsed profiles into the store.
  \<open>merged_into\<close>, \<open>sep\<close>, \<open>lines_ok\<close>, \<open>items_ok\<close>, \<open>mid_ok\<close> and \<open>step_ok\<close> are the
  invariants: \<open>sep N K1 KO tbl h\<close> says that the merged table \<open>tbl\<close> holds addresses of the
  store \<open>h\<close>, that an address it holds for line 1 is below \<open>N\<close> only if it is in \<open>K1\<close>, one
  for another line only if it is in \<open>KO\<close>, and that no address is held both for line 1
  and for another line.
\<close>

definition comb :: "int option \<Rightarrow> int option \<Rightarrow> int option" where
  "comb a b = (case a of None \<Rightarrow> b | Some x \<Rightarrow> (case b of None \<Rightarrow> Some x | Some y \<Rightarrow> Some (x + y)))"

definition comb2 :: "int option option \<Rightarrow> int option option \<Rightarrow> int option option" where
  "comb2 x y = (case x of None \<Rightarrow> y | Some a \<Rightarrow> (case y of None \<Rightarrow> Some a | Some b \<Rightarrow> Some (comb a b)))"

definition addr_at :: "(string \<times> (int \<times> nat) list) list \<Rightarrow> string \<Rightarrow> int \<Rightarrow> nat option" where
  "addr_at tbl f n = (case map_of tbl f of None \<Rightarrow> None | Some ls \<Rightarrow> map_of ls n)"



definition sep ::
  "nat \<Rightarrow> nat set \<Rightarrow> nat set \<Rightarrow> (string \<times> (int \<times> nat) list) list \<Rightarrow> 'f Line list \<Rightarrow> bool" where
  "sep N K1 KO tbl h =
     (N \<le> length h \<and>
      (\<forall>f n b. addr_at tbl f n = Some b \<longrightarrow>
         b < length h \<and> (if n = 1 then b \<in> K1 \<or> N \<le> b else b \<in> KO \<or> N \<le> b)) \<and>
      (\<forall>f g n b. addr_at tbl f 1 = Some b \<longrightarrow> addr_at tbl g n = Some b \<longrightarrow> n = 1))"






definition profile_entries :: "nat Script list \<Rightarrow> (int \<times> nat) list" where
  "profile_entries p = concat (map lines p)"

definition separate :: "'f Line list \<Rightarrow> nat Script list \<Rightarrow> nat Script list \<Rightarrow> bool" where
  "separate h P1 P2 =
     (distinct (map snd (profile_entries P1 @ profile_entries P2)) \<and>
      list_all (\<lambda>x. snd x < length h) (profile_entries P1 @ profile_entries P2) \<and>
      list_all (\<lambda>s. distinct (map fst (lines s))) (P1 @ P2))"



section \<open>Evaluation of the model on concrete inputs\<close>

lemmas parse_eval = parse_def new_profile_def map_functions_def map_function_def find_func_in_source_def
  get_anon_func_script_line_def get_anon_func_script_line_inner_def enumerate_scripts_def
  source_contains_func_def anon_site_def function_eq_def dict_eq_def add_count_def add_time_def
  map_function_line_def
  data_line_def script_header_def defined_source_def rpartition_def rstrip_crlf_def
  parse_function_def set_add_def is_executable_line_def re_sourced_times_def re_snr_prefix_def
  re_func_prefix_def re_continuing_line_def parse_count_and_times_def py_int_def dec_value_def
  truthy_def startswith_def py_isdigit_def is_decimal_def py_isspace_def expanduser_def
  int_strip_def int_isspace_def iter_set_def
  map_loop.simps map_pass.simps propagate_count.simps anon_loop.simps peek_loop.simps
  peek_loop_strict.simps data_row_def Let_def

lemmas merge_eval = merged_lines_def profile_lines_def script_eq_def merge_lines_def
  first_line_workaround_def merge_script_def merged_count_def get_coveragepy_data_def
  get_coveragepy_data_inner_def setattr_profiles_def

section \<open>C1: errors that escape from parse\<close>

text \<open>
  C1 says that no error escapes from \<open>parse()\<close> or the merge, and names three inputs in
  particular. Each of the three makes \<open>parse\<close> raise a \<open>KeyError\<close>: a \<open>Defined:\<close> header
  that names a script the profile has not declared (\<open>self.scripts_by_fname[fname]\<close>); a
  named function whose body is longer than what is left of the script
  (\<open>script.lines[script_lnum + f_lnum]\<close> in \<open>source_contains_func\<close>); a dict function that
  is defined on the last line of its script (\<open>s.lines[script_lnum]\<close> in
  \<open>_get_anon_func_script_line\<close>). This holds whatever the builtins \<open>E\<close> are.
\<close>

theorem parse_raises_KeyError:
  "(\<forall>E. parse E
      [''SCRIPT  /t/x.vim'', ''Sourced 1 time'', ''count  total (s)   self (s)'',
       data_row ''    1'' ''function! F()'',
       data_row ''     '' ''  echo 2'',
       data_row ''     '' ''endfunction'',
       '''',
       ''FUNCTION  F()'', ''    Defined: /t/y.vim:1'', ''Called 1 time'',
       ''count  total (s)   self (s)'',
       data_row ''    1'' ''  echo 2'',
       ''''] = Inl KeyError) \<and>
   (\<forall>E. parse E
      [''SCRIPT  /t/x.vim'', ''Sourced 1 time'', ''count  total (s)   self (s)'',
       data_row ''    1'' ''function! F()'',
       data_row ''     '' ''  echo 2'',
       '''',
       ''FUNCTION  F()'', ''Called 1 time'', ''count  total (s)   self (s)'',
       data_row ''    1'' ''  echo 2'',
       data_row ''    1'' ''  echo 3'',
       ''''] = Inl KeyError) \<and>
   (\<forall>E. parse E
      [''SCRIPT  /t/x.vim'', ''Sourced 1 time'', ''count  total (s)   self (s)'',
       data_row ''    1'' ''let d = {}'',
       data_row ''    1'' ''function! d.f()'',
       '''',
       ''FUNCTION  1()'', ''Called 1 time'', ''count  total (s)   self (s)'',
       data_row ''    1'' ''  echo 2'',
       ''''] = Inl KeyError)"
  by (simp add: parse_eval)

section \<open>C2: the count and time fields\<close>

lemma set_int_strip: "set (int_strip s) \<subseteq> set s"
  by (auto simp: int_strip_def dest!: set_dropWhileD)

lemma py_int_nonneg: "py_int s = Some n \<Longrightarrow> CHR ''-'' \<notin> set s \<Longrightarrow> 0 \<le> n"
proof -
  assume a: "py_int s = Some n" and b: "CHR ''-'' \<notin> set s"
  have "\<not> (int_strip s \<noteq> [] \<and> hd (int_strip s) = CHR ''-'')"
  proof
    assume "int_strip s \<noteq> [] \<and> hd (int_strip s) = CHR ''-''"
    then have "CHR ''-'' \<in> set (int_strip s)" by (metis hd_in_set)
    with set_int_strip b show False by blast
  qed
  with a show ?thesis by (auto simp: py_int_def Let_def split: if_splits)
qed

lemma parse_count_negative:
  "parse_count_and_times E ''   -1                      '' = Inr (Some (- 1), None, None)"
  by (simp add: parse_count_and_times_def py_int_def int_strip_def int_isspace_def dec_value_def
        is_decimal_def Let_def)

text \<open>
  C2, as the code has it. With an empty count field \<open>l[0:5]\<close> the result is
  \<open>(0, None, None)\<close>. When the function returns \<open>(c, t, s)\<close> for another line: \<open>c\<close> is
  \<open>None\<close> for a count field of five spaces, and otherwise the integer that \<open>int()\<close> reads
  from the field, which is not negative when the field has no minus sign; \<open>t\<close> and \<open>s\<close>
  are \<open>None\<close> for a field of eight spaces and otherwise what \<open>float()\<close> reads from the
  field. The function raises exactly when a field that is not all spaces does not parse;
  the error is a \<open>ValueError\<close>, and the parser then logs a warning, stores no \<open>Line\<close> and
  goes on with the line counter moved by one.
\<close>

theorem parse_count_and_times_fields:
  "(take 5 l = [] \<longrightarrow> parse_count_and_times E l = Inr (Some 0, None, None)) \<and>
   (take 5 l \<noteq> [] \<and> parse_count_and_times E l = Inr (c, t, s) \<longrightarrow>
      (take 5 l = ''     '' \<longrightarrow> c = None) \<and>
      (take 5 l \<noteq> ''     '' \<longrightarrow>
         (\<exists>n. c = Some n \<and> py_int (take 5 l) = Some n \<and> (CHR ''-'' \<notin> set (take 5 l) \<longrightarrow> 0 \<le> n))) \<and>
      t = (if take 8 (drop 8 l) = ''        '' then None else float_of_str E (take 8 (drop 8 l))) \<and>
      s = (if take 8 (drop 19 l) = ''        '' then None else float_of_str E (take 8 (drop 19 l)))) \<and>
   ((\<exists>e. parse_count_and_times E l = Inl e) =
      (take 5 l \<noteq> [] \<and>
       (take 5 l \<noteq> ''     '' \<and> py_int (take 5 l) = None \<or>
        take 8 (drop 8 l) \<noteq> ''        '' \<and> float_of_str E (take 8 (drop 8 l)) = None \<or>
        take 8 (drop 19 l) \<noteq> ''        '' \<and> float_of_str E (take 8 (drop 19 l)) = None))) \<and>
   (parse_count_and_times E l = Inl e \<longrightarrow>
      e = ValueError \<and>
      data_line E l st =
        Inr (st\<lparr>st_lnum := st_lnum st + 1,
                prof := (prof st)\<lparr>log := log (prof st) @ [Warning_CouldNotParse (st_plnum st) l]\<rparr>\<rparr>))"
proof (intro conjI)
  show "take 5 l = [] \<longrightarrow> parse_count_and_times E l = Inr (Some 0, None, None)"
    by (simp add: parse_count_and_times_def)
  show "take 5 l \<noteq> [] \<and> parse_count_and_times E l = Inr (c, t, s) \<longrightarrow>
      (take 5 l = ''     '' \<longrightarrow> c = None) \<and>
      (take 5 l \<noteq> ''     '' \<longrightarrow>
         (\<exists>n. c = Some n \<and> py_int (take 5 l) = Some n \<and> (CHR ''-'' \<notin> set (take 5 l) \<longrightarrow> 0 \<le> n))) \<and>
      t = (if take 8 (drop 8 l) = ''        '' then None else float_of_str E (take 8 (drop 8 l))) \<and>
      s = (if take 8 (drop 19 l) = ''        '' then None else float_of_str E (take 8 (drop 19 l)))"
    by (auto simp: parse_count_and_times_def dest: py_int_nonneg
             split: if_splits option.splits sum.splits)
  show "(\<exists>e. parse_count_and_times E l = Inl e) =
      (take 5 l \<noteq> [] \<and>
       (take 5 l \<noteq> ''     '' \<and> py_int (take 5 l) = None \<or>
        take 8 (drop 8 l) \<noteq> ''        '' \<and> float_of_str E (take 8 (drop 8 l)) = None \<or>
        take 8 (drop 19 l) \<noteq> ''        '' \<and> float_of_str E (take 8 (drop 19 l)) = None))"
    by (auto simp: parse_count_and_times_def split: if_splits option.splits sum.splits)
  show "parse_count_and_times E l = Inl e \<longrightarrow>
      e = ValueError \<and>
      data_line E l st =
        Inr (st\<lparr>st_lnum := st_lnum st + 1,
                prof := (prof st)\<lparr>log := log (prof st) @ [Warning_CouldNotParse (st_plnum st) l]\<rparr>\<rparr>)"
  proof
    assume a: "parse_count_and_times E l = Inl e"
    then have "e = ValueError"
      by (auto simp: parse_count_and_times_def split: if_splits option.splits sum.splits)
    moreover from a have "data_line E l st =
        Inr (st\<lparr>st_lnum := st_lnum st + 1,
                prof := (prof st)\<lparr>log := log (prof st) @ [Warning_CouldNotParse (st_plnum st) l]\<rparr>\<rparr>)"
      by (simp add: data_line_def Let_def)
    ultimately show "e = ValueError \<and>
      data_line E l st =
        Inr (st\<lparr>st_lnum := st_lnum st + 1,
                prof := (prof st)\<lparr>log := log (prof st) @ [Warning_CouldNotParse (st_plnum st) l]\<rparr>\<rparr>)"
      by simp
  qed
qed

theorem parse_count_and_times_fields_witness:
  "parse_count_and_times \<lparr>float_of_str = (\<lambda>x. None :: rat option), float_add = (+),
      float_truthy = (\<lambda>x. x \<noteq> 0), expand_tilde = (\<lambda>x. x),
         set_order = (\<lambda>x. x)\<rparr> [] = Inr (Some 0, None, None) \<and>
   (\<exists>n. py_int (take 5 (data_row ''    3'' ''echo 1'')) = Some n \<and> 0 \<le> n) \<and>
   data_line \<lparr>float_of_str = (\<lambda>x. None :: rat option), float_add = (+),
      float_truthy = (\<lambda>x. x \<noteq> 0), expand_tilde = (\<lambda>x. x),
         set_order = (\<lambda>x. x)\<rparr> ''abcde''
      \<lparr>prof = new_profile, in_script = None, in_function = None, st_lnum = 0, st_plnum = 5,
        funcs = []\<rparr> =
     Inr \<lparr>prof = new_profile\<lparr>log := [Warning_CouldNotParse 5 ''abcde'']\<rparr>, in_script = None,
          in_function = None, st_lnum = 1, st_plnum = 5, funcs = []\<rparr>"
proof -
  let ?E = "\<lparr>float_of_str = (\<lambda>x. None :: rat option), float_add = (+),
      float_truthy = (\<lambda>x. x \<noteq> 0), expand_tilde = (\<lambda>x. x),
         set_order = (\<lambda>x. x)\<rparr>"
  let ?st = "\<lparr>prof = new_profile :: rat Profile, in_script = None, in_function = None,
      st_lnum = 0, st_plnum = 5, funcs = []\<rparr>"
  have a: "parse_count_and_times ?E (data_row ''    3'' ''echo 1'') = Inr (Some 3, None, None)"
    by (simp add: parse_eval)
  have b: "parse_count_and_times ?E ''abcde'' = Inl ValueError"
    by (simp add: parse_eval)
  have "parse_count_and_times ?E [] = Inr (Some 0, None, None)"
    using parse_count_and_times_fields [of "[]" ?E] by simp
  moreover have "\<exists>n. py_int (take 5 (data_row ''    3'' ''echo 1'')) = Some n \<and> 0 \<le> n"
    using parse_count_and_times_fields [of "data_row ''    3'' ''echo 1''" ?E "Some 3" None None] a
    by (auto simp: data_row_def)
  moreover have "data_line ?E ''abcde'' ?st =
      Inr (?st\<lparr>st_lnum := st_lnum ?st + 1,
               prof := (prof ?st)\<lparr>log := log (prof ?st) @ [Warning_CouldNotParse (st_plnum ?st) ''abcde'']\<rparr>\<rparr>)"
    using parse_count_and_times_fields [of "''abcde''" ?E _ _ _ ValueError ?st] b by blast
  ultimately show ?thesis by (simp add: new_profile_def)
qed

text \<open>
  C2 as it is written fails: a count field that is neither empty nor five spaces can give
  a negative count, here \<open>-1\<close>.
\<close>

theorem parse_count_negative_counterexample:
  "\<not> (\<forall>(E :: 'f builtins) l c t s.
         take 5 l \<noteq> [] \<longrightarrow> take 5 l \<noteq> ''     '' \<longrightarrow> parse_count_and_times E l = Inr (c, t, s) \<longrightarrow>
         (\<exists>n. c = Some n \<and> 0 \<le> n))"
proof
  assume a: "\<forall>(E :: 'f builtins) l c t s.
         take 5 l \<noteq> [] \<longrightarrow> take 5 l \<noteq> ''     '' \<longrightarrow> parse_count_and_times E l = Inr (c, t, s) \<longrightarrow>
         (\<exists>n. c = Some n \<and> 0 \<le> n)"
  have "parse_count_and_times (undefined :: 'f builtins) ''   -1                      ''
        = Inr (Some (- 1), None, None)"
    by (rule parse_count_negative)
  with a [rule_format, of "''   -1                      ''" undefined "Some (- 1)" None None]
  show False by simp
qed

section \<open>C6: the cached coverage record\<close>

text \<open>
  C6 says that growing the list of profiles through \<open>add_profile_files\<close> invalidates the
  cached coverage record. It does not: a \<open>MergedProfiles\<close> without profiles caches the
  empty record; after \<open>add_profile_files\<close> has added a profile that covers line 1 of
  \<open>/t/x.vim\<close>, \<open>get_coveragepy_data\<close> still returns the empty record. Assigning the same
  list to the attribute \<open>profiles\<close> drops the cache, and the record then holds the line.
\<close>

theorem add_profile_files_stale_cache:
  "\<forall>E. \<exists>mp1 mp2 h2 mp3 h3.
     get_coveragepy_data \<lparr>abspath = (\<lambda>x. x), find_source_files = (\<lambda>x. [])\<rparr>
        \<lparr>profiles = [], mp_source = [], append_to = None, coveragepy_data = None\<rparr> []
       = Inr (([], []), mp1, []) \<and>
     add_profile_files E
        [[''SCRIPT  /t/x.vim'', ''Sourced 1 time'', ''count  total (s)   self (s)'',
          data_row ''    3'' ''echo 1'', '''']] mp1 [] = Inr (mp2, h2) \<and>
     length (profiles mp2) = 1 \<and>
     get_coveragepy_data \<lparr>abspath = (\<lambda>x. x), find_source_files = (\<lambda>x. [])\<rparr> mp2 h2
       = Inr (([], []), mp2, h2) \<and>
     get_coveragepy_data \<lparr>abspath = (\<lambda>x. x), find_source_files = (\<lambda>x. [])\<rparr>
        (setattr_profiles (profiles mp2) mp2) h2
       = Inr (([(''/t/x.vim'', [1])], [(''/t/x.vim'', ''covimerage.CoveragePlugin'')]), mp3, h3)"
  by (simp add: parse_eval merge_eval)

section \<open>C7: the merger writes to a Line of a profile\<close>

text \<open>
  C7 says that computing the merged line table leaves every \<open>Line\<close> of every profile as it
  was. For a path that is not yet in the table the merger keeps the \<open>Line\<close> objects of the
  script (\<open>copy.copy(s_lines)\<close> copies the dict only), and the first-line workaround then
  assigns to \<open>count\<close> of the script's own line 1: the object at address 0, which the
  script of the profile holds for line 1, has no count before the merge and count 1 after.
\<close>

theorem merge_changes_profile_line:
  "\<forall>E. \<exists>p sp h tbl h1.
     parse E [''SCRIPT  /t/x.vim'', ''Sourced 1 time'', ''count  total (s)   self (s)'',
              data_row ''     '' ''let y=0'',
              data_row ''    1'' ''let x=1'',
              ''''] = Inr p \<and>
     store_profile (scripts p) [] = (sp, h) \<and>
     merged_lines [sp] h = Inr (tbl, h1) \<and>
     map (lines) sp = [[(1, 0), (2, 1)]] \<and>
     map count h = [None, Some 1] \<and>
     map count h1 = [Some 1, Some 1]"
  by (simp add: parse_eval merge_eval)

section \<open>C8: a Defined header that names an unknown script\<close>

text \<open>
  C8 says that a \<open>Defined:\<close> header naming a script that the profile has not declared is
  logged, and that the function is then resolved by its content. The lookup
  \<open>self.scripts_by_fname[fname]\<close> raises a \<open>KeyError\<close> instead, which ends \<open>parse\<close>. The
  same profile without the header line is parsed, and the function is found by its
  content: its count reaches line 2 of the script.
\<close>

theorem defined_header_unknown_script:
  "(\<forall>E. parse E
      [''SCRIPT  /t/x.vim'', ''Sourced 1 time'', ''count  total (s)   self (s)'',
       data_row ''    1'' ''function! G()'',
       data_row ''     '' ''  echo 2'',
       data_row ''     '' ''endfunction'',
       '''',
       ''FUNCTION  G()'', ''    Defined: /t/other.vim:1'', ''Called 1 time'',
       ''count  total (s)   self (s)'',
       data_row ''    1'' ''  echo 2'',
       ''''] = Inl KeyError) \<and>
   (\<forall>E. \<exists>p. parse E
      [''SCRIPT  /t/x.vim'', ''Sourced 1 time'', ''count  total (s)   self (s)'',
       data_row ''    1'' ''function! G()'',
       data_row ''     '' ''  echo 2'',
       data_row ''     '' ''endfunction'',
       '''',
       ''FUNCTION  G()'', ''Called 1 time'',
       ''count  total (s)   self (s)'',
       data_row ''    1'' ''  echo 2'',
       ''''] = Inr p \<and> map (count \<circ> snd) (lines (scripts p ! 0)) = [Some 1, Some 1, None]
           \<and> log p = [Debug_ParsingScript ''/t/x.vim'', Debug_ParsingFunction ''G''])"
  by (simp add: parse_eval)

section \<open>C5: the first-line workaround\<close>

text \<open>
  C5, as the code has it. When the workaround returns and the merged table of the
  script's path has line 1 at address \<open>a\<close>: the store changes if and only if the sourced
  count of the script is an integer other than 0, the script has a line, the count of the
  merged line 1 is \<open>None\<close> or 0, and the text of that line is executable; the change is
  that the count of the object at \<open>a\<close> becomes 1; no other object of the store changes.
  (The test \<open>not line1.count\<close> takes a recorded count of 0 like a missing count.)
\<close>

theorem first_line_workaround_fires_iff:
  assumes "first_line_workaround s s_lines new h = Inr h1"
    and "map_of new 1 = Some a" and "a < length h"
  shows "((h1 \<noteq> h) =
            ((\<exists>n. sourced_count s = Some n \<and> n \<noteq> 0) \<and> s_lines \<noteq> [] \<and>
             (count (h ! a) = None \<or> count (h ! a) = Some 0) \<and>
             is_executable_line (line (h ! a)))) \<and>
         (h1 \<noteq> h \<longrightarrow> h1 = h[a := (h ! a)\<lparr>count := Some 1\<rparr>]) \<and>
         length h1 = length h \<and>
         (\<forall>b. b \<noteq> a \<longrightarrow> h1 ! b = h ! b)"
proof -
  have neq: "h[a := (h ! a)\<lparr>count := Some 1\<rparr>] \<noteq> h" if "\<not> truthy (count (h ! a))"
  proof
    assume "h[a := (h ! a)\<lparr>count := Some 1\<rparr>] = h"
    then have "h[a := (h ! a)\<lparr>count := Some 1\<rparr>] ! a = h ! a" by simp
    with assms(3) have "count (h ! a) = Some 1"
      by (metis Line.select_convs(2) Line.surjective Line.update_convs(2) nth_list_update_eq)
    with that show False by (simp add: truthy_def)
  qed
  have tr: "truthy c = (\<exists>n. c = Some n \<and> n \<noteq> 0)" for c
    by (cases c) (auto simp: truthy_def)
  have ntr: "(\<not> truthy c) = (c = None \<or> c = Some 0)" for c
    by (cases c) (auto simp: truthy_def)
  from assms neq have "(h1 \<noteq> h) =
           ((\<exists>n. sourced_count s = Some n \<and> n \<noteq> 0) \<and> s_lines \<noteq> [] \<and>
            (count (h ! a) = None \<or> count (h ! a) = Some 0) \<and> is_executable_line (line (h ! a)))"
    unfolding tr [symmetric] ntr [symmetric]
    by (auto simp: first_line_workaround_def split: if_splits)
  moreover from assms have "h1 \<noteq> h \<longrightarrow> h1 = h[a := (h ! a)\<lparr>count := Some 1\<rparr>]"
    by (auto simp: first_line_workaround_def split: if_splits)
  moreover from assms have "length h1 = length h"
    by (auto simp: first_line_workaround_def split: if_splits)
  moreover from assms have "\<forall>b. b \<noteq> a \<longrightarrow> h1 ! b = h ! b"
    by (auto simp: first_line_workaround_def split: if_splits)
  ultimately show ?thesis by blast
qed

theorem first_line_workaround_fires_iff_witness:
  "first_line_workaround
     \<lparr>path = ''/t/x.vim'', lines = [(1, 0), (2, 1)], dict_functions = [],
       mapped_dict_functions = [], func_to_lnums = [], sourced_count = Some 1\<rparr>
     [(1, 0), (2, 1)] [(1, 0), (2, 1)]
     [\<lparr>line = ''let y=0'', count = None, total_time = None :: 'f option, self_time = None\<rparr>,
      \<lparr>line = ''let x=1'', count = Some 1, total_time = None, self_time = None\<rparr>]
   = Inr [\<lparr>line = ''let y=0'', count = Some 1, total_time = None, self_time = None\<rparr>,
          \<lparr>line = ''let x=1'', count = Some 1, total_time = None, self_time = None\<rparr>]"
proof -
  let ?s = "\<lparr>path = ''/t/x.vim'', lines = [(1, 0), (2, 1::nat)], dict_functions = [],
       mapped_dict_functions = [], func_to_lnums = [], sourced_count = Some 1\<rparr>"
  let ?h = "[\<lparr>line = ''let y=0'', count = None, total_time = None :: 'f option, self_time = None\<rparr>,
      \<lparr>line = ''let x=1'', count = Some 1, total_time = None, self_time = None\<rparr>]"
  obtain h1 where r: "first_line_workaround ?s [(1, 0), (2, 1)] [(1, 0), (2, 1)] ?h = Inr h1"
    by (simp add: first_line_workaround_def truthy_def is_executable_line_def py_isspace_def)
  have m: "map_of [(1::int, 0::nat), (2, 1)] 1 = Some 0" by simp
  have l: "0 < length ?h" by simp
  note w = first_line_workaround_fires_iff [OF r m l]
  from w have "h1 \<noteq> ?h"
    by (simp add: is_executable_line_def py_isspace_def)
  with w have "h1 = ?h[0 := (?h ! 0)\<lparr>count := Some 1\<rparr>]" by blast
  with r show ?thesis by simp
qed

text \<open>
  C5 as it is written fails: line 1 has the recorded count 0, and the workaround sets
  its count to 1.
\<close>

theorem first_line_workaround_counterexample:
  "first_line_workaround
     \<lparr>path = ''/t/x.vim'', lines = [(1, 0)], dict_functions = [],
       mapped_dict_functions = [], func_to_lnums = [], sourced_count = Some 1\<rparr>
     [(1, 0)] [(1, 0)]
     [\<lparr>line = ''let y=0'', count = Some 0, total_time = None, self_time = None\<rparr>]
   = Inr [\<lparr>line = ''let y=0'', count = Some 1, total_time = None, self_time = None\<rparr>]"
  by (simp add: first_line_workaround_def truthy_def is_executable_line_def py_isspace_def)

section \<open>C10: map_function is not atomic\<close>

lemma map_function_lines_append:
  "map_function_lines E nm pre sl script lg = Inr (True, sl1, script1, lg1) \<Longrightarrow>
   map_function_lines E nm (pre @ rest) sl script lg = map_function_lines E nm rest sl1 script1 lg1"
proof (induction pre arbitrary: sl script)
  case Nil
  then show ?case by simp
next
  case (Cons a pre)
  obtain k fl where a: "a = (k, fl)" by (cases a)
  from Cons.prems obtain sl2 script2 where
    step: "map_function_line E nm k fl sl script = Inr (Inr (sl2, script2))" and
    rec: "map_function_lines E nm pre sl2 script2 lg = Inr (True, sl1, script1, lg1)"
    by (auto simp: a split: sum.splits)
  from Cons.IH [OF rec] step show ?case by (simp add: a)
qed

lemma propagate_count_before:
  "propagate_count ls c i n = Inr ls2 \<Longrightarrow> k < i \<Longrightarrow> map_of ls2 k = map_of ls k"
proof (induction ls c i n rule: propagate_count.induct)
  case (1 ls c i n)
  show ?case
  proof (cases "i < n")
    case False
    with "1.prems" show ?thesis by (simp add: propagate_count.simps [of ls c i n])
  next
    case True
    with "1.prems" obtain l where l: "map_of ls i = Some l"
      by (auto simp: propagate_count.simps [of ls c i n] split: option.splits)
    show ?thesis
    proof (cases "re_continuing_line (line l) \<noteq> None")
      case False
      with True l "1.prems" show ?thesis by (simp add: propagate_count.simps [of ls c i n])
    next
      case c: True
      with True l "1.prems" have
        "propagate_count (AList.update i (l\<lparr>count := c\<rparr>) ls) c (i + 1) n = Inr ls2"
        by (simp add: propagate_count.simps [of ls c i n])
      from "1.IH" [OF True l c this] "1.prems"(2)
      show ?thesis by (simp add: update_conv')
    qed
  qed
qed

lemma map_function_line_count:
  assumes "map_function_line E nm k fl sl script = Inr (Inr (sl1, script1))"
    and "count fl = Some c"
  shows "\<exists>l0 l1. map_of (lines script) (sl + k) = Some l0 \<and>
                 map_of (lines script1) (sl + k) = Some l1 \<and>
                 count l1 = add_count (count l0) c"
  using assms
  by (auto simp: map_function_line_def Let_def update_conv' parse_function_def
           split: option.splits if_splits sum.splits prod.splits
           dest!: propagate_count_before [where k = "sl + k"])

text \<open>
  C10. Let \<open>map_function\<close> work on the script \<open>i\<close> from line \<open>sl\<close> (the declared source of
  \<open>f\<close>, or what \<open>find_func_in_source\<close> returns), let the loop get through the lines \<open>pre\<close>
  of \<open>f\<close> and leave the script \<open>script1\<close>, and let the next line of \<open>f\<close> fail with the
  warning \<open>w\<close> (no script line, or a text that does not match). Then \<open>map_function\<close>
  returns \<open>False\<close> and the profile holds \<open>script1\<close>, not the script from before the call;
  the pass of \<open>map_functions\<close> goes on with \<open>f\<close> still in the list; and the count \<open>c\<close> of
  the last line of \<open>pre\<close> has been added to its script line in \<open>script1\<close>. A later call
  that fails at the same line starts from \<open>script1\<close> and adds the counts once more.
\<close>

theorem map_function_not_atomic:
  assumes loc: "source f = Some (i, sl) \<and> p1 = p \<or>
                source f = None \<and> find_func_in_source E f p = Inr (Some (i, sl), p1)"
    and fl: "f_lines f = pre @ (k, fl) # post"
    and pre: "map_function_lines E (name f) pre sl (scripts p1 ! i) (log p1)
              = Inr (True, sl1, script1, lg1)"
    and bad: "map_function_line E (name f) k fl sl1 script1 = Inr (Inl w)"
    and idx: "j < length fs \<and> fs ! j = f"
  shows "map_function E f p
           = Inr (False, p1\<lparr>scripts := (scripts p1)[i := script1], log := lg1 @ [w]\<rparr>) \<and>
         map_pass E j fs p
           = map_pass E (j + 1) fs (p1\<lparr>scripts := (scripts p1)[i := script1], log := lg1 @ [w]\<rparr>) \<and>
         (\<forall>pre0 k0 l0 c sl0 script0 lg0.
            pre = pre0 @ [(k0, l0)] \<and> count l0 = Some c \<and>
            map_function_lines E (name f) pre0 sl (scripts p1 ! i) (log p1)
              = Inr (True, sl0, script0, lg0) \<longrightarrow>
            (\<exists>a b. map_of (lines script0) (sl0 + k0) = Some a \<and>
                   map_of (lines script1) (sl0 + k0) = Some b \<and>
                   count b = add_count (count a) c))"
proof (intro conjI allI impI)
  have "map_function_lines E (name f) (f_lines f) sl (scripts p1 ! i) (log p1)
        = map_function_lines E (name f) ((k, fl) # post) sl1 script1 lg1"
    unfolding fl by (rule map_function_lines_append [OF pre])
  also have "\<dots> = Inr (False, sl1, script1, lg1 @ [w])"
    using bad by simp
  finally have run: "map_function_lines E (name f) (f_lines f) sl (scripts p1 ! i) (log p1)
        = Inr (False, sl1, script1, lg1 @ [w])" .
  from loc run
  show mf: "map_function E f p
           = Inr (False, p1\<lparr>scripts := (scripts p1)[i := script1], log := lg1 @ [w]\<rparr>)"
    by (auto simp: map_function_def)
  from idx mf
  show "map_pass E j fs p
           = map_pass E (j + 1) fs (p1\<lparr>scripts := (scripts p1)[i := script1], log := lg1 @ [w]\<rparr>)"
    by (simp add: map_pass.simps [of E j fs p])
next
  fix pre0 k0 l0 c sl0 script0 lg0
  assume a: "pre = pre0 @ [(k0, l0)] \<and> count l0 = Some c \<and>
            map_function_lines E (name f) pre0 sl (scripts p1 ! i) (log p1)
              = Inr (True, sl0, script0, lg0)"
  then have "map_function_lines E (name f) pre sl (scripts p1 ! i) (log p1)
             = map_function_lines E (name f) [(k0, l0)] sl0 script0 lg0"
    using map_function_lines_append [of E "name f" pre0 sl "scripts p1 ! i" "log p1" sl0 script0 lg0]
    by simp
  with pre have "map_function_line E (name f) k0 l0 sl0 script0 = Inr (Inr (sl1, script1))"
    by (auto split: sum.splits)
  from map_function_line_count [OF this] a
  show "\<exists>a b. map_of (lines script0) (sl0 + k0) = Some a \<and>
                   map_of (lines script1) (sl0 + k0) = Some b \<and>
                   count b = add_count (count a) c"
    by simp
qed


theorem map_function_not_atomic_witness:
  "\<exists>p1 p2.
     map_function
       \<lparr>float_of_str = (\<lambda>x. None :: rat option), float_add = (+), float_truthy = (\<lambda>x. x \<noteq> 0),
         expand_tilde = (\<lambda>x. x),
         set_order = (\<lambda>x. x)\<rparr>
       \<lparr>name = ''F'', f_total_time = None, f_self_time = None,
         f_lines = [(1, \<lparr>line = ''  echo 1'', count = Some 3, total_time = None, self_time = None\<rparr>),
                    (2, \<lparr>line = ''  echo X'', count = Some 3, total_time = None, self_time = None\<rparr>)],
         source = Some (0, 1)\<rparr>
       \<lparr>scripts = [\<lparr>path = ''/t/x.vim'',
                     lines = [(1, \<lparr>line = ''function! F()'', count = Some 1, total_time = None, self_time = None\<rparr>),
                              (2, \<lparr>line = ''  echo 1'', count = None, total_time = None, self_time = None\<rparr>),
                              (3, \<lparr>line = ''endfunction'', count = None, total_time = None, self_time = None\<rparr>)],
                     dict_functions = [], mapped_dict_functions = [],
                     func_to_lnums = [(''F'', [1])], sourced_count = Some 1\<rparr>],
         scripts_by_fname = [(''/t/x.vim'', 0)], anonymous_functions = [], log = []\<rparr>
     = Inr (False, p1) \<and>
     map (\<lambda>x. count (snd x)) (lines (scripts p1 ! 0)) = [Some 1, Some 3, None] \<and>
     map_function
       \<lparr>float_of_str = (\<lambda>x. None :: rat option), float_add = (+), float_truthy = (\<lambda>x. x \<noteq> 0),
         expand_tilde = (\<lambda>x. x),
         set_order = (\<lambda>x. x)\<rparr>
       \<lparr>name = ''F'', f_total_time = None, f_self_time = None,
         f_lines = [(1, \<lparr>line = ''  echo 1'', count = Some 3, total_time = None, self_time = None\<rparr>),
                    (2, \<lparr>line = ''  echo X'', count = Some 3, total_time = None, self_time = None\<rparr>)],
         source = Some (0, 1)\<rparr> p1
     = Inr (False, p2) \<and>
     map (\<lambda>x. count (snd x)) (lines (scripts p2 ! 0)) = [Some 1, Some 6, None]"
proof -
  let ?E = "\<lparr>float_of_str = (\<lambda>x. None :: rat option), float_add = (+),
              float_truthy = (\<lambda>x. x \<noteq> 0), expand_tilde = (\<lambda>x. x),
         set_order = (\<lambda>x. x)\<rparr>"
  let ?l1 = "\<lparr>line = ''  echo 1'', count = Some 3, total_time = None :: rat option, self_time = None\<rparr>"
  let ?l2 = "\<lparr>line = ''  echo X'', count = Some 3, total_time = None :: rat option, self_time = None\<rparr>"
  let ?f = "\<lparr>name = ''F'', f_total_time = None, f_self_time = None,
             f_lines = [(1, ?l1), (2, ?l2)], source = Some (0, 1)\<rparr>"
  let ?s = "\<lambda>c. \<lparr>path = ''/t/x.vim'',
                 lines = [(1, \<lparr>line = ''function! F()'', count = Some 1, total_time = None :: rat option, self_time = None\<rparr>),
                          (2, \<lparr>line = ''  echo 1'', count = c, total_time = None, self_time = None\<rparr>),
                          (3, \<lparr>line = ''endfunction'', count = None, total_time = None, self_time = None\<rparr>)],
                 dict_functions = [], mapped_dict_functions = [],
                 func_to_lnums = [(''F'', [1])], sourced_count = Some 1\<rparr>"
  let ?p = "\<lambda>c lg. \<lparr>scripts = [?s c], scripts_by_fname = [(''/t/x.vim'', 0)],
                    anonymous_functions = [], log = lg\<rparr>"
  let ?w = "Warning_NoMatch ''endfunction'' ''  echo X''"
  have h1: "source ?f = Some (0, 1) \<and> ?p c lg = ?p c lg \<or>
            source ?f = None \<and> find_func_in_source ?E ?f (?p c lg) = Inr (Some (0, 1), ?p c lg)" for c lg
    by simp
  have h2: "f_lines ?f = [(1, ?l1)] @ (2, ?l2) # []"
    by simp
  have h3: "map_function_lines ?E (name ?f) [(1, ?l1)] 1 (scripts (?p None []) ! 0) (log (?p None []))
            = Inr (True, 1, ?s (Some 3), [])"
    by (simp add: parse_eval)
  have h3': "map_function_lines ?E (name ?f) [(1, ?l1)] 1 (scripts (?p (Some 3) [?w]) ! 0) (log (?p (Some 3) [?w]))
            = Inr (True, 1, ?s (Some 6), [?w])"
    by (simp add: parse_eval)
  have h4: "map_function_line ?E (name ?f) 2 ?l2 1 (?s c) = Inr (Inl ?w)" for c
    by (simp add: parse_eval)
  have h5: "0 < length [?f] \<and> [?f] ! 0 = ?f"
    by simp
  have a: "map_function ?E ?f (?p None []) = Inr (False, ?p (Some 3) [?w])"
    using map_function_not_atomic [OF h1 h2 h3 h4 h5, THEN conjunct1] by simp
  have b: "map_function ?E ?f (?p (Some 3) [?w]) = Inr (False, ?p (Some 6) [?w, ?w])"
    using map_function_not_atomic [OF h1 h2 h3' h4 h5, THEN conjunct1] by simp
  show ?thesis
    by (rule exI [of _ "?p (Some 3) [?w]"], rule exI [of _ "?p (Some 6) [?w, ?w]"])
       (simp add: a b)
qed

theorem map_functions_adds_twice:
  "\<forall>E. \<exists>p. parse E
      [''SCRIPT  /t/x.vim'', ''Sourced 1 time'', ''count  total (s)   self (s)'',
       data_row ''    1'' ''function! F()'',
       data_row ''     '' ''  echo 1'',
       data_row ''     '' ''endfunction'',
       data_row ''    1'' ''function! G()'',
       data_row ''     '' ''  echo 2'',
       data_row ''     '' ''endfunction'',
       '''',
       ''FUNCTION  F()'', ''    Defined: /t/x.vim:1'', ''Called 3 times'',
       ''count  total (s)   self (s)'',
       data_row ''    3'' ''  echo 1'',
       data_row ''    3'' ''  echo X'',
       '''',
       ''FUNCTION  G()'', ''Called 1 time'',
       ''count  total (s)   self (s)'',
       data_row ''    1'' ''  echo 2'',
       ''''] = Inr p \<and>
     map (\<lambda>x. count (snd x)) (lines (scripts p ! 0))
       = [Some 1, Some 6, None, Some 1, Some 1, None] \<and>
     log p = [Debug_ParsingScript ''/t/x.vim'', Debug_ParsingFunction ''F'',
              Debug_ParsingFunction ''G'',
              Warning_NoMatch ''endfunction'' ''  echo X'',
              Warning_NoMatch ''endfunction'' ''  echo X'',
              Error_NoSource ''F'']"
  by (simp add: parse_eval)

section \<open>Invariants of parsing and mapping\<close>






























section \<open>C3: the keys of a script's line table\<close>




section \<open>C9: an anonymous function consumes at most one dict-function site\<close>



section \<open>Invariants of merging\<close>





lemma comb2_None [simp]: "comb2 None y = y" "comb2 x None = x"
  by (simp_all add: comb2_def split: option.splits)






























text \<open>
  \<open>store_profile\<close> gives the lines of the profiles the addresses \<open>0, 1, 2, ...\<close> in turn:
  two profiles that it has put into the store one after the other are separate.
\<close>

lemma store_lines_addrs:
  "store_lines r h = (r1, h1) \<Longrightarrow>
     map snd r1 = [length h ..< length h1] \<and> map fst r1 = map fst r \<and> length h \<le> length h1"
proof (induction r arbitrary: h r1 h1)
  case Nil
  then show ?case by simp
next
  case (Cons x r)
  obtain k l where x: "x = (k, l)" by (cases x)
  obtain r2 h2 where s: "store_lines r (h @ [l]) = (r2, h2)" by (cases "store_lines r (h @ [l])")
  from Cons.IH [OF s] have ih: "map snd r2 = [Suc (length h) ..< length h2]"
    "map fst r2 = map fst r" "Suc (length h) \<le> length h2" by simp_all
  from Cons.prems s have r1: "r1 = (k, length h) # r2" "h1 = h2" by (simp_all add: x)
  from ih(3) have "[length h ..< length h2] = length h # [Suc (length h) ..< length h2]"
    by (simp add: upt_conv_Cons)
  with ih r1 show ?case by (simp add: x)
qed

lemma store_profile_addrs:
  "store_profile ss h = (ss1, h1) \<Longrightarrow>
     map snd (profile_entries ss1) = [length h ..< length h1] \<and> length h \<le> length h1 \<and>
     map (\<lambda>s. map fst (lines s)) ss1 = map (\<lambda>s. map fst (lines s)) ss"
proof (induction ss arbitrary: h ss1 h1)
  case Nil
  then show ?case by (simp add: profile_entries_def)
next
  case (Cons s ss)
  obtain ls hm where a: "store_lines (lines s) h = (ls, hm)" by (cases "store_lines (lines s) h")
  obtain ss2 h2 where b: "store_profile ss hm = (ss2, h2)" by (cases "store_profile ss hm")
  from store_lines_addrs [OF a] have la: "map snd ls = [length h ..< length hm]"
    "map fst ls = map fst (lines s)" "length h \<le> length hm" by simp_all
  from Cons.IH [OF b] have ih: "map snd (profile_entries ss2) = [length hm ..< length h2]"
    "length hm \<le> length h2" "map (\<lambda>s. map fst (lines s)) ss2 = map (\<lambda>s. map fst (lines s)) ss"
    by simp_all
  from Cons.prems a b have ss1: "ss1 = \<lparr>path = path s, lines = ls, dict_functions = dict_functions s,
         mapped_dict_functions = mapped_dict_functions s,
         func_to_lnums = func_to_lnums s, sourced_count = sourced_count s\<rparr> # ss2"
    and h12: "h1 = h2" by auto
  have r: "h1 = h2"
    "profile_entries ss1 = ls @ profile_entries ss2"
    "map (\<lambda>s. map fst (lines s)) ss1 = map fst ls # map (\<lambda>s. map fst (lines s)) ss2"
    unfolding ss1 by (simp_all add: profile_entries_def h12)
  have "[length h ..< length hm] @ [length hm ..< length h2] = [length h ..< length h2]"
    using la(3) ih(2) by (metis le_Suc_ex upt_add_eq_append)
  with la ih r show ?case by simp
qed

lemma store_profile_separate:
  assumes "store_profile ss [] = (P1, h1)" and "store_profile ss' h1 = (P2, h)"
    and "list_all (\<lambda>s. distinct (map fst (lines s))) (ss @ ss')"
  shows "separate h P1 P2"
proof -
  from store_profile_addrs [OF assms(1)] have a: "map snd (profile_entries P1) = [0 ..< length h1]"
    "map (\<lambda>s. map fst (lines s)) P1 = map (\<lambda>s. map fst (lines s)) ss" by simp_all
  from store_profile_addrs [OF assms(2)] have b: "map snd (profile_entries P2) = [length h1 ..< length h]"
    "length h1 \<le> length h" "map (\<lambda>s. map fst (lines s)) P2 = map (\<lambda>s. map fst (lines s)) ss'" by simp_all
  have e: "map snd (profile_entries P1 @ profile_entries P2) = [0 ..< length h]"
    using a(1) b(1,2) by (metis le0 le_Suc_ex map_append upt_add_eq_append)
  then have d: "distinct (map snd (profile_entries P1 @ profile_entries P2))" by simp
  have v: "list_all (\<lambda>x. snd x < length h) (profile_entries P1 @ profile_entries P2)"
  proof -
    have "set (map snd (profile_entries P1 @ profile_entries P2)) = {0 ..< length h}"
      by (simp only: e set_upt)
    then have "\<forall>x \<in> set (profile_entries P1 @ profile_entries P2). snd x < length h"
      unfolding set_map by (metis atLeastLessThan_iff imageI)
    then show ?thesis by (simp only: list_all_iff)
  qed
  have lm: "list_all (\<lambda>s. distinct (map fst (lines s))) xs = list_all distinct (map (\<lambda>s. map fst (lines s)) xs)"
    for xs :: "'l Script list"
    by (induction xs) simp_all
  from assms(3) have k1: "list_all distinct (map (\<lambda>s. map fst (lines s)) ss)"
    and k2: "list_all distinct (map (\<lambda>s. map fst (lines s)) ss')"
    unfolding list_all_append lm by simp_all
  have k: "list_all (\<lambda>s. distinct (map fst (lines s))) (P1 @ P2)"
    unfolding lm map_append list_all_append a(2) b(3) by (intro conjI k1 k2)
  from d v k show ?thesis unfolding separate_def by blast
qed

section \<open>C4: the order of the profiles in a merge\<close>




end
